theory Spec2Isabelle
  imports Complex_Main "HOL-Library.Word"
begin

section \<open>Python floats\<close>

text \<open>
  Prices, ratings and order totals are Python \<^verbatim>\<open>float\<close>s, that is IEEE 754 binary64
  values. A finite float is represented by the rational number it denotes; the two
  zeros, which Python's \<^verbatim>\<open>==\<close> identifies, are the one value \<open>Fin 0\<close>: the sign
  of a zero is not represented. Every arithmetic operation
  computes the exact rational result and rounds it to the nearest binary64 value,
  ties to even, overflowing to an infinity.
\<close>

datatype pyfloat = Fin rat | PInf | NInf | NaN

text \<open>The number of binary digits of a positive integer (\<^verbatim>\<open>int.bit_length\<close>).\<close>

function bit_length :: "int \<Rightarrow> nat" where
  "bit_length n = (if n \<le> 0 then 0 else Suc (bit_length (n div 2)))"
  by pat_completeness auto
termination
  by (relation "measure nat") auto

declare bit_length.simps [simp del]

definition pow2 :: "int \<Rightarrow> rat" where
  "pow2 k = (if 0 \<le> k then 2 ^ nat k else 1 / 2 ^ nat (- k))"

text \<open>For \<open>0 < q\<close>, \<open>ilog2 q\<close> is the exponent \<open>e\<close> with \<open>2\<^sup>e \<le> q < 2\<^sup>e\<^sup>+\<^sup>1\<close>.\<close>

definition ilog2 :: "rat \<Rightarrow> int" where
  "ilog2 q = (if 1 \<le> q then int (bit_length \<lfloor>q\<rfloor>) - 1
              else - int (bit_length (\<lceil>1 / q\<rceil> - 1)))"

definition round_half_even :: "rat \<Rightarrow> int" where
  "round_half_even q =
     (let f = \<lfloor>q\<rfloor>; d = q - of_int f
      in if d < 1 / 2 then f
         else if 1 / 2 < d then f + 1
         else if even f then f else f + 1)"

text \<open>
  Rounding a rational to binary64: 53 significant bits, least exponent \<open>-1022\<close>
  (below it the subnormal spacing \<open>2\<^sup>-\<^sup>1\<^sup>0\<^sup>7\<^sup>4\<close>), overflow from \<open>2\<^sup>1\<^sup>0\<^sup>2\<^sup>4\<close>.
\<close>

definition fl :: "rat \<Rightarrow> pyfloat" where
  "fl q =
     (if q = 0 then Fin 0
      else let a = \<bar>q\<bar>;
               e = max (ilog2 a) (- 1022);
               u = pow2 (e - 52);
               r = of_int (round_half_even (a / u)) * u
           in if pow2 1024 \<le> r then (if q < 0 then NInf else PInf)
              else Fin (if q < 0 then - r else r))"

fun is_finite :: "pyfloat \<Rightarrow> bool" where
  "is_finite (Fin q) = True"
| "is_finite x = False"

fun fneg :: "pyfloat \<Rightarrow> pyfloat" where
  "fneg (Fin q) = Fin (- q)"
| "fneg PInf = NInf"
| "fneg NInf = PInf"
| "fneg NaN = NaN"

fun fabs :: "pyfloat \<Rightarrow> pyfloat" where
  "fabs (Fin q) = Fin \<bar>q\<bar>"
| "fabs PInf = PInf"
| "fabs NInf = PInf"
| "fabs NaN = NaN"

fun fadd :: "pyfloat \<Rightarrow> pyfloat \<Rightarrow> pyfloat" where
  "fadd NaN y = NaN"
| "fadd x NaN = NaN"
| "fadd PInf NInf = NaN"
| "fadd NInf PInf = NaN"
| "fadd PInf y = PInf"
| "fadd NInf y = NInf"
| "fadd x PInf = PInf"
| "fadd x NInf = NInf"
| "fadd (Fin a) (Fin b) = fl (a + b)"

definition fsub :: "pyfloat \<Rightarrow> pyfloat \<Rightarrow> pyfloat" where
  "fsub x y = fadd x (fneg y)"

text \<open>The sign of an infinite product; an infinity times zero is not a number.\<close>

fun inf_times :: "bool \<Rightarrow> pyfloat \<Rightarrow> pyfloat" where
  "inf_times neg (Fin q) =
     (if q = 0 then NaN else if (q < 0) = neg then PInf else NInf)"
| "inf_times neg PInf = (if neg then NInf else PInf)"
| "inf_times neg NInf = (if neg then PInf else NInf)"
| "inf_times neg NaN = NaN"

fun fmul :: "pyfloat \<Rightarrow> pyfloat \<Rightarrow> pyfloat" where
  "fmul NaN y = NaN"
| "fmul x NaN = NaN"
| "fmul PInf y = inf_times False y"
| "fmul NInf y = inf_times True y"
| "fmul x PInf = inf_times False x"
| "fmul x NInf = inf_times True x"
| "fmul (Fin a) (Fin b) = fl (a * b)"

text \<open>Python's \<^verbatim>\<open>x >= y\<close> and \<^verbatim>\<open>x <= y\<close> on floats: false as soon as one side is NaN.\<close>

fun fge :: "pyfloat \<Rightarrow> pyfloat \<Rightarrow> bool" where
  "fge NaN y = False"
| "fge x NaN = False"
| "fge PInf y = True"
| "fge x NInf = True"
| "fge NInf y = False"
| "fge x PInf = False"
| "fge (Fin a) (Fin b) = (b \<le> a)"

definition fle :: "pyfloat \<Rightarrow> pyfloat \<Rightarrow> bool" where
  "fle x y = fge y x"

text \<open>
  The value of a decimal literal such as \<^verbatim>\<open>14.99\<close>, in the source or in a JSON
  body: the float nearest to the decimal.
\<close>

definition float_literal :: "rat \<Rightarrow> pyfloat" where
  "float_literal q = fl q"

text \<open>The least magnitude that rounds to an infinity: \<open>2\<^sup>1\<^sup>0\<^sup>2\<^sup>4 - 2\<^sup>9\<^sup>7\<^sup>0\<close>.\<close>

definition float_max_bound :: rat where
  "float_max_bound = pow2 1024 - pow2 970"

section \<open>Errors\<close>

text \<open>
  Every way an endpoint can fail: an \<^verbatim>\<open>HTTPException\<close> (status code and detail),
  raised by the handlers and by FastAPI when the request body cannot be read; the 422
  response FastAPI produces when the request body does not validate against the
  declared model; the exceptions of the Python operations the handlers and the
  response rendering use; and the exception of the database helpers when no
  connection exists.
\<close>

datatype error =
    HTTPException nat string
  | RequestValidationError
  | ValueError
  | OverflowError
  | InvalidId
  | DatabaseNotAvailable

text \<open>The status code of the response: an exception no handler catches is a 500.\<close>

fun status_code :: "error \<Rightarrow> nat" where
  "status_code (HTTPException c d) = c"
| "status_code RequestValidationError = 422"
| "status_code ValueError = 500"
| "status_code OverflowError = 500"
| "status_code InvalidId = 500"
| "status_code DatabaseNotAvailable = 500"


definition is_server_error :: "error \<Rightarrow> bool" where
  "is_server_error e = (500 \<le> status_code e \<and> status_code e < 600)"

text \<open>
  \<^verbatim>\<open>float * int\<close> converts the integer first; an integer that rounds to
  \<open>2\<^sup>1\<^sup>0\<^sup>2\<^sup>4\<close> or more raises \<^verbatim>\<open>OverflowError\<close>.
\<close>

definition int_to_float :: "int \<Rightarrow> error + pyfloat" where
  "int_to_float n =
     (case fl (of_int n) of Fin q \<Rightarrow> Inr (Fin q) | _ \<Rightarrow> Inl OverflowError)"

definition float_mul_int :: "pyfloat \<Rightarrow> int \<Rightarrow> error + pyfloat" where
  "float_mul_int x n =
     (case int_to_float n of Inl e \<Rightarrow> Inl e | Inr y \<Rightarrow> Inr (fmul x y))"

text \<open>
  \<^verbatim>\<open>round(x, ndigits)\<close> for \<open>ndigits \<ge> 0\<close>: infinities and NaN round to themselves;
  a finite float is rounded, as the exact number it is, to the nearest multiple of
  \<open>10\<^sup>-\<^sup>n\<close> (ties to even), and the float nearest to that decimal is returned.
\<close>

fun py_round :: "pyfloat \<Rightarrow> nat \<Rightarrow> pyfloat" where
  "py_round (Fin q) ndigits = fl (of_int (round_half_even (q * 10 ^ ndigits)) / 10 ^ ndigits)"
| "py_round x ndigits = x"

text \<open>
  \<^verbatim>\<open>sum\<close> over floats. The first item is added to the integer start value \<open>0\<close>;
  from there CPython up to 3.11 adds from left to right, CPython from 3.12 on runs
  Neumaier's compensated summation and adds the compensation at the end.
  The sum of no items is the integer \<open>0\<close>, which the \<^verbatim>\<open>float\<close> field it
  ends up in holds as \<open>0.0\<close>.
\<close>

datatype sum_algorithm = LeftToRight | Neumaier

fun neumaier :: "pyfloat \<Rightarrow> pyfloat \<Rightarrow> pyfloat list \<Rightarrow> pyfloat" where
  "neumaier f c [] = (if c \<noteq> Fin 0 \<and> is_finite c then fadd f c else f)"
| "neumaier f c (x # xs) =
     (let t = fadd f x;
          c' = (if fge (fabs f) (fabs x) then fadd c (fadd (fsub f t) x)
                else fadd c (fadd (fsub x t) f))
      in neumaier t c' xs)"

fun py_sum :: "sum_algorithm \<Rightarrow> pyfloat list \<Rightarrow> pyfloat" where
  "py_sum alg [] = Fin 0"
| "py_sum LeftToRight (x # xs) = foldl fadd (fadd (Fin 0) x) xs"
| "py_sum Neumaier (x # xs) = neumaier (fadd (Fin 0) x) (Fin 0) xs"

section \<open>Schemas\<close>

text \<open>
  The pydantic models of \<^verbatim>\<open>schemas.py\<close> that the endpoints use. A field declared
  \<^verbatim>\<open>Optional\<close> is an \<open>option\<close>. Field names carry the model's name where two
  models share a name.
\<close>

record Restaurant =
  restaurant_name :: string
  restaurant_description :: "string option"
  restaurant_image :: "string option"
  cuisine :: string
  rating :: pyfloat
  delivery_time_min :: int

record MenuItem =
  menuitem_restaurant_id :: string
  menuitem_name :: string
  menuitem_description :: "string option"
  menuitem_price :: pyfloat
  menuitem_image :: "string option"
  menuitem_category :: "string option"

record OrderItem =
  menu_item_id :: string
  item_name :: string
  quantity :: int
  price :: pyfloat

record Order =
  order_restaurant_id :: string
  order_customer_name :: string
  order_address :: string
  order_phone :: string
  order_items :: "OrderItem list"
  order_total :: pyfloat
  order_status :: string

text \<open>
  The constraints the \<^verbatim>\<open>Field\<close> declarations put on a value:
  \<^verbatim>\<open>rating\<close> has \<^verbatim>\<open>ge=0, le=5\<close>, \<^verbatim>\<open>delivery_time_min\<close> has \<^verbatim>\<open>ge=5, le=120\<close>,
  the price of a \<^verbatim>\<open>MenuItem\<close> has \<^verbatim>\<open>ge=0\<close>, the quantity of an \<^verbatim>\<open>OrderItem\<close>
  has \<^verbatim>\<open>ge=1\<close>. The price of an \<^verbatim>\<open>OrderItem\<close> is declared \<^verbatim>\<open>price: float\<close>,
  with no constraint.
\<close>

definition Restaurant_constraints :: "Restaurant \<Rightarrow> bool" where
  "Restaurant_constraints r =
     (fge (rating r) (Fin 0) \<and> fle (rating r) (Fin 5)
      \<and> 5 \<le> delivery_time_min r \<and> delivery_time_min r \<le> 120)"

definition MenuItem_constraints :: "MenuItem \<Rightarrow> bool" where
  "MenuItem_constraints m = fge (menuitem_price m) (Fin 0)"

definition OrderItem_constraints :: "OrderItem \<Rightarrow> bool" where
  "OrderItem_constraints i = (1 \<le> quantity i)"

section \<open>The request body of order creation\<close>

text \<open>
  \<^verbatim>\<open>create_order\<close> takes a \<^verbatim>\<open>CreateOrder\<close>, which FastAPI builds from the
  JSON body before the handler runs. The body as it arrives has each key present or
  absent (an \<open>option\<close>). A client may send a \<^verbatim>\<open>total\<close> along: \<^verbatim>\<open>CreateOrder\<close>
  declares no such field, and a key the model does not declare is ignored.
\<close>

record OrderItem_body =
  body_menu_item_id :: "string option"
  body_item_name :: "string option"
  body_quantity :: "int option"
  body_price :: "pyfloat option"

record CreateOrder_body =
  body_restaurant_id :: "string option"
  body_customer_name :: "string option"
  body_address :: "string option"
  body_phone :: "string option"
  body_items :: "OrderItem_body list option"
  body_total :: "pyfloat option"

record CreateOrder =
  restaurant_id :: string
  customer_name :: string
  address :: string
  phone :: string
  items :: "OrderItem list"

text \<open>
  The body is read with \<^verbatim>\<open>json.loads\<close>, which reads an integer literal with
  \<^verbatim>\<open>int\<close>: a literal of more than 4300 digits (the interpreter's default limit
  on integer string conversion) raises \<^verbatim>\<open>ValueError\<close>, which FastAPI answers with
  the \<^verbatim>\<open>HTTPException\<close> 400 \<^verbatim>\<open>There was an error parsing the body\<close>. The tokens
  \<^verbatim>\<open>NaN\<close>, \<^verbatim>\<open>Infinity\<close> and \<^verbatim>\<open>-Infinity\<close> are read as floats.
\<close>

definition int_max_str_digits :: nat where
  "int_max_str_digits = 4300"

function decimal_digits :: "int \<Rightarrow> nat" where
  "decimal_digits n = (if \<bar>n\<bar> < 10 then 1 else Suc (decimal_digits (\<bar>n\<bar> div 10)))"
  by pat_completeness auto
termination by (relation "measure (\<lambda>n. nat \<bar>n\<bar>)") auto

declare decimal_digits.simps [simp del]

definition int_literal_loads :: "int \<Rightarrow> bool" where
  "int_literal_loads n = (decimal_digits n \<le> int_max_str_digits)"

definition item_loads :: "OrderItem_body \<Rightarrow> bool" where
  "item_loads b = (case body_quantity b of None \<Rightarrow> True | Some q \<Rightarrow> int_literal_loads q)"

definition json_loads :: "CreateOrder_body \<Rightarrow> error + CreateOrder_body" where
  "json_loads body =
     (if (case body_items body of None \<Rightarrow> True | Some bs \<Rightarrow> list_all item_loads bs)
      then Inr body
      else Inl (HTTPException 400 ''There was an error parsing the body''))"

text \<open>
  Validation collects one error for every field that fails, and each error carries
  the input it rejected: for a required key that is absent, the whole object the key
  is absent from; for a violated constraint, the value of the field.
\<close>

datatype error_input =
    BodyInput CreateOrder_body
  | ItemInput OrderItem_body
  | QuantityInput int

text \<open>
  Validation of one item: \<^verbatim>\<open>menu_item_id\<close>, \<^verbatim>\<open>name\<close> and \<^verbatim>\<open>price\<close> are required,
  \<^verbatim>\<open>quantity\<close> defaults to \<open>1\<close> and must satisfy \<^verbatim>\<open>ge=1\<close>.
\<close>

definition OrderItem_errors :: "OrderItem_body \<Rightarrow> error_input list" where
  "OrderItem_errors b =
     (if body_menu_item_id b = None then [ItemInput b] else []) @
     (if body_item_name b = None then [ItemInput b] else []) @
     (case body_quantity b of
        None \<Rightarrow> []
      | Some q \<Rightarrow> if 1 \<le> q then [] else [QuantityInput q]) @
     (if body_price b = None then [ItemInput b] else [])"

definition validate_OrderItem :: "OrderItem_body \<Rightarrow> error_input list + OrderItem" where
  "validate_OrderItem b =
     (case (body_menu_item_id b, body_item_name b, body_price b) of
        (Some mid, Some n, Some p) \<Rightarrow>
          (let q = (case body_quantity b of None \<Rightarrow> 1 | Some q \<Rightarrow> q)
           in if 1 \<le> q
              then Inr \<lparr>menu_item_id = mid, item_name = n, quantity = q, price = p\<rparr>
              else Inl (OrderItem_errors b))
      | _ \<Rightarrow> Inl (OrderItem_errors b))"

fun validate_items :: "OrderItem_body list \<Rightarrow> error_input list + OrderItem list" where
  "validate_items [] = Inr []"
| "validate_items (b # bs) =
     (case (validate_OrderItem b, validate_items bs) of
        (Inr i, Inr is) \<Rightarrow> Inr (i # is)
      | (Inl es, Inr is) \<Rightarrow> Inl es
      | (Inr i, Inl es') \<Rightarrow> Inl es'
      | (Inl es, Inl es') \<Rightarrow> Inl (es @ es'))"

text \<open>Validation of the body: all five fields are required; \<^verbatim>\<open>items\<close> is a list of items.\<close>

definition CreateOrder_errors :: "CreateOrder_body \<Rightarrow> error_input list" where
  "CreateOrder_errors b =
     (if body_restaurant_id b = None then [BodyInput b] else []) @
     (if body_customer_name b = None then [BodyInput b] else []) @
     (if body_address b = None then [BodyInput b] else []) @
     (if body_phone b = None then [BodyInput b] else []) @
     (case body_items b of
        None \<Rightarrow> [BodyInput b]
      | Some bs \<Rightarrow> (case validate_items bs of Inl es \<Rightarrow> es | Inr is \<Rightarrow> []))"

definition validate_CreateOrder :: "CreateOrder_body \<Rightarrow> error_input list + CreateOrder" where
  "validate_CreateOrder b =
     (case (body_restaurant_id b, body_customer_name b, body_address b, body_phone b,
            body_items b) of
        (Some rid, Some cn, Some a, Some ph, Some bs) \<Rightarrow>
          (case validate_items bs of
             Inl es \<Rightarrow> Inl es
           | Inr is \<Rightarrow>
               Inr \<lparr>restaurant_id = rid, customer_name = cn, address = a, phone = ph,
                    items = is\<rparr>)
      | _ \<Rightarrow> Inl (CreateOrder_errors b))"

text \<open>
  The 422 response lists the errors, each with its input, and is rendered with
  \<^verbatim>\<open>json.dumps(..., allow_nan=False)\<close>, which raises \<^verbatim>\<open>ValueError\<close> on a float
  that is an infinity or NaN. The application registers no handler of its own, so
  that exception is answered with a 500.
\<close>

definition item_json_compliant :: "OrderItem_body \<Rightarrow> bool" where
  "item_json_compliant b = (case body_price b of None \<Rightarrow> True | Some p \<Rightarrow> is_finite p)"

definition body_json_compliant :: "CreateOrder_body \<Rightarrow> bool" where
  "body_json_compliant b =
     ((case body_total b of None \<Rightarrow> True | Some t \<Rightarrow> is_finite t)
      \<and> (case body_items b of None \<Rightarrow> True | Some bs \<Rightarrow> list_all item_json_compliant bs))"

fun json_compliant :: "error_input \<Rightarrow> bool" where
  "json_compliant (BodyInput b) = body_json_compliant b"
| "json_compliant (ItemInput b) = item_json_compliant b"
| "json_compliant (QuantityInput q) = True"

definition request_validation_response :: "error_input list \<Rightarrow> error" where
  "request_validation_response es =
     (if list_all json_compliant es then RequestValidationError else ValueError)"

section \<open>The document store\<close>

text \<open>
  An identifier is a BSON ObjectId: twelve bytes, printed by \<^verbatim>\<open>str\<close> as 24
  hexadecimal digits and read back from such a string by \<^verbatim>\<open>ObjectId(s)\<close>, which
  raises \<^verbatim>\<open>InvalidId\<close> on any other string.
\<close>

type_synonym objectid = "96 word"

definition hex_digit :: "nat \<Rightarrow> char" where
  "hex_digit d = ''0123456789abcdef'' ! (d mod 16)"

fun hex_digits :: "nat \<Rightarrow> nat \<Rightarrow> string" where
  "hex_digits 0 n = []"
| "hex_digits (Suc k) n = hex_digits k (n div 16) @ [hex_digit n]"

definition str_oid :: "objectid \<Rightarrow> string" where
  "str_oid w = hex_digits 24 (unat w)"

definition hex_value :: "char \<Rightarrow> nat option" where
  "hex_value c =
     map_of (zip ''0123456789abcdefABCDEF''
       [0, 1, 2, 3, 4, 5, 6, 7, 8, 9, 10, 11, 12, 13, 14, 15, 10, 11, 12, 13, 14, 15]) c"

fun hex_number :: "nat \<Rightarrow> string \<Rightarrow> nat option" where
  "hex_number acc [] = Some acc"
| "hex_number acc (c # cs) =
     (case hex_value c of None \<Rightarrow> None | Some d \<Rightarrow> hex_number (16 * acc + d) cs)"

definition ObjectId :: "string \<Rightarrow> error + objectid" where
  "ObjectId s =
     (if length s = 24
      then (case hex_number 0 s of None \<Rightarrow> Inl InvalidId | Some n \<Rightarrow> Inr (of_nat n))
      else Inl InvalidId)"

text \<open>
  A stored document is the dictionary of one model's fields together with the
  \<^verbatim>\<open>_id\<close> the store gave it. A collection is the list of its documents in
  storage order; the database is the list of its collections by name, and the
  counter from which the next identifier is taken.
\<close>

datatype model = RestaurantDoc Restaurant | MenuItemDoc MenuItem | OrderDoc Order

record document =
  doc_id :: objectid
  doc_fields :: model

record database =
  collections :: "(string \<times> document list) list"
  next_id :: objectid

definition list_collection_names :: "database \<Rightarrow> string list" where
  "list_collection_names d = map fst (collections d)"

text \<open>\<^verbatim>\<open>db[name].find()\<close>: every document of the collection; none when it does not exist.\<close>

definition find_docs :: "database \<Rightarrow> string \<Rightarrow> document list" where
  "find_docs d cname = (case map_of (collections d) cname of None \<Rightarrow> [] | Some ds \<Rightarrow> ds)"

definition count_documents :: "database \<Rightarrow> string \<Rightarrow> int" where
  "count_documents d cname = int (length (find_docs d cname))"

fun put_collection ::
  "string \<Rightarrow> document list \<Rightarrow> (string \<times> document list) list \<Rightarrow> (string \<times> document list) list"
where
  "put_collection cname ds [] = [(cname, ds)]"
| "put_collection cname ds ((k, v) # cs) =
     (if k = cname then (k, ds) # cs else (k, v) # put_collection cname ds cs)"

text \<open>
  \<^verbatim>\<open>db[name].insert_one(data)\<close>: the document gets a fresh identifier and is added
  to the collection, which is created when it did not exist. A document is stored
  as BSON, whose integers have at most eight bytes: encoding a larger one raises
  \<^verbatim>\<open>OverflowError\<close>, and nothing is stored.
\<close>

definition bson_int :: "int \<Rightarrow> bool" where
  "bson_int n = (- (2 ^ 63) \<le> n \<and> n < 2 ^ 63)"

fun bson_encodable :: "model \<Rightarrow> bool" where
  "bson_encodable (RestaurantDoc r) = bson_int (delivery_time_min r)"
| "bson_encodable (MenuItemDoc m) = True"
| "bson_encodable (OrderDoc ord) = list_all (\<lambda>i. bson_int (quantity i)) (order_items ord)"

definition store_document :: "database \<Rightarrow> string \<Rightarrow> model \<Rightarrow> objectid \<times> database" where
  "store_document d cname data =
     (let oid = next_id d;
          doc = \<lparr>doc_id = oid, doc_fields = data\<rparr>
      in (oid, \<lparr>collections = put_collection cname (find_docs d cname @ [doc]) (collections d),
               next_id = oid + 1\<rparr>))"

definition insert_one :: "database \<Rightarrow> string \<Rightarrow> model \<Rightarrow> error + objectid \<times> database" where
  "insert_one d cname data =
     (if bson_encodable data then Inr (store_document d cname data) else Inl OverflowError)"

text \<open>
  Modelled from the spec: \<^verbatim>\<open>database.create_document\<close> is imported by
  \<^verbatim>\<open>main.py\<close> and is not among the source files. The spec has the store support
  insert, every record identified by a store-assigned identifier that is a string
  on output, the created order's id returned to the client, and every
  store-dependent operation fail when the store was never initialised. The handle
  \<^verbatim>\<open>db\<close> is \<open>None\<close> or an initialised database; the operation returns the
  identifier string together with the database after the write.
\<close>

definition create_document ::
  "database option \<Rightarrow> string \<Rightarrow> model \<Rightarrow> error + (string \<times> database)"
where
  "create_document db cname data =
     (case db of
        None \<Rightarrow> Inl DatabaseNotAvailable
      | Some d \<Rightarrow>
          (case insert_one d cname data of
             Inl e \<Rightarrow> Inl e
           | Inr (oid, d') \<Rightarrow> Inr (str_oid oid, d')))"

text \<open>
  Modelled from the spec: \<^verbatim>\<open>database.get_documents\<close> is imported by
  \<^verbatim>\<open>main.py\<close> and is not among the source files. The spec has the store support
  filtered retrieval in storage order. The filter dictionary is the predicate it
  denotes on stored documents.
\<close>

definition get_documents ::
  "database option \<Rightarrow> string \<Rightarrow> (document \<Rightarrow> bool) \<Rightarrow> error + document list"
where
  "get_documents db cname flt =
     (case db of
        None \<Rightarrow> Inl DatabaseNotAvailable
      | Some d \<Rightarrow> Inr (filter flt (find_docs d cname)))"

section \<open>Seeding\<close>

record created =
  restaurants :: int
  menuitem :: int

definition sample_restaurants :: "Restaurant list" where
  "sample_restaurants =
     [\<lparr>restaurant_name = ''Pasta Palace'',
       restaurant_description = Some ''Homemade pasta and sauces'',
       restaurant_image = Some ''https://images.unsplash.com/photo-1521389508051-d7ffb5dc8bbf'',
       cuisine = ''Italian'', rating = float_literal (46 / 10), delivery_time_min = 30\<rparr>,
      \<lparr>restaurant_name = ''Sushi Express'',
       restaurant_description = Some ''Fresh nigiri and rolls'',
       restaurant_image = Some ''https://images.unsplash.com/photo-1544025162-d76694265947'',
       cuisine = ''Japanese'', rating = float_literal (48 / 10), delivery_time_min = 25\<rparr>,
      \<lparr>restaurant_name = ''Spice Route'',
       restaurant_description = Some ''Curries, biryani and more'',
       restaurant_image = Some ''https://images.unsplash.com/photo-1604908554027-0f2f74a9cfc7'',
       cuisine = ''Indian'', rating = float_literal (45 / 10), delivery_time_min = 35\<rparr>]"

definition sample_items :: "objectid \<Rightarrow> objectid \<Rightarrow> objectid \<Rightarrow> MenuItem list" where
  "sample_items first second third =
     [\<lparr>menuitem_restaurant_id = str_oid first, menuitem_name = ''Spaghetti Carbonara'',
       menuitem_description = Some ''Creamy sauce with pancetta'',
       menuitem_price = float_literal (1499 / 100),
       menuitem_image = Some ''https://images.unsplash.com/photo-1603133872878-684f208fb86a'',
       menuitem_category = Some ''Mains''\<rparr>,
      \<lparr>menuitem_restaurant_id = str_oid first, menuitem_name = ''Margherita Pizza'',
       menuitem_description = Some ''Classic tomatoes and mozzarella'',
       menuitem_price = float_literal (125 / 10),
       menuitem_image = Some ''https://images.unsplash.com/photo-1548365328-9f547fb09530'',
       menuitem_category = Some ''Mains''\<rparr>,
      \<lparr>menuitem_restaurant_id = str_oid second, menuitem_name = ''Salmon Nigiri (6)'',
       menuitem_description = Some ''Fresh cut salmon over rice'',
       menuitem_price = float_literal (1199 / 100),
       menuitem_image = Some ''https://images.unsplash.com/photo-1562158070-1a4f3f8f7c21'',
       menuitem_category = Some ''Sushi''\<rparr>,
      \<lparr>menuitem_restaurant_id = str_oid third, menuitem_name = ''Chicken Tikka Masala'',
       menuitem_description = Some ''Charred chicken in spicy sauce'',
       menuitem_price = float_literal (1375 / 100),
       menuitem_image = Some ''https://images.unsplash.com/photo-1604908177031-842fa9a316d2'',
       menuitem_category = Some ''Mains''\<rparr>]"

text \<open>
  The two loops \<^verbatim>\<open>for x in xs: create_document(name, x); created[key] += 1\<close>:
  the counter and the database after the last insertion.
\<close>

fun create_documents ::
  "string \<Rightarrow> model list \<Rightarrow> database \<Rightarrow> int \<Rightarrow> (error + int) \<times> database"
where
  "create_documents cname [] d n = (Inr n, d)"
| "create_documents cname (x # xs) d n =
     (case create_document (Some d) cname x of
        Inl e \<Rightarrow> (Inl e, d)
      | Inr (oid, d') \<Rightarrow> create_documents cname xs d' (n + 1))"

text \<open>The documents such a loop stores, the first under the identifier \<open>oid\<close>.\<close>

fun new_documents :: "objectid \<Rightarrow> model list \<Rightarrow> document list" where
  "new_documents oid [] = []"
| "new_documents oid (x # xs) = \<lparr>doc_id = oid, doc_fields = x\<rparr> # new_documents (oid + 1) xs"

text \<open>
  The restaurant phase and the menu-item phase of \<^verbatim>\<open>seed_data\<close>. Both test
  membership in \<^verbatim>\<open>collections\<close>, the list of names read once when the call begins.
\<close>

definition seed_restaurants :: "string list \<Rightarrow> database \<Rightarrow> (error + int) \<times> database" where
  "seed_restaurants colls d =
     (if ''restaurant'' \<notin> set colls \<or> count_documents d ''restaurant'' = 0
      then create_documents ''restaurant'' (map RestaurantDoc sample_restaurants) d 0
      else (Inr 0, d))"

definition seed_menuitems :: "string list \<Rightarrow> database \<Rightarrow> (error + int) \<times> database" where
  "seed_menuitems colls d =
     (if ''menuitem'' \<notin> set colls \<or> count_documents d ''menuitem'' = 0
      then (let restaurants = find_docs d ''restaurant''
            in if restaurants \<noteq> []
               then (let first = doc_id (restaurants ! 0);
                         second = (if 1 < length restaurants then doc_id (restaurants ! 1)
                                   else first);
                         third = (if 2 < length restaurants then doc_id (restaurants ! 2)
                                  else first)
                     in create_documents ''menuitem''
                          (map MenuItemDoc (sample_items first second third)) d 0)
               else (Inr 0, d))
      else (Inr 0, d))"

definition seed_data :: "database option \<Rightarrow> (error + created) \<times> database option" where
  "seed_data db =
     (case db of
        None \<Rightarrow> (Inl (HTTPException 500 ''Database not configured''), None)
      | Some d \<Rightarrow>
          (let colls = list_collection_names d
           in case seed_restaurants colls d of
                (Inl e, d1) \<Rightarrow> (Inl e, Some d1)
              | (Inr nr, d1) \<Rightarrow>
                  (case seed_menuitems colls d1 of
                     (Inl e, d2) \<Rightarrow> (Inl e, Some d2)
                   | (Inr nm, d2) \<Rightarrow> (Inr \<lparr>restaurants = nr, menuitem = nm\<rparr>, Some d2))))"

section \<open>Catalog queries\<close>

text \<open>\<^verbatim>\<open>_stringify_id\<close>: the document as returned, its identifier a string.\<close>

record json_document =
  json_id :: string
  json_fields :: model

definition stringify_id :: "document \<Rightarrow> json_document" where
  "stringify_id doc = \<lparr>json_id = str_oid (doc_id doc), json_fields = doc_fields doc\<rparr>"

definition list_restaurants :: "database option \<Rightarrow> error + json_document list" where
  "list_restaurants db =
     (case get_documents db ''restaurant'' (\<lambda>doc. True) of
        Inl e \<Rightarrow> Inl e
      | Inr docs \<Rightarrow> Inr (map stringify_id docs))"

text \<open>
  The filter \<^verbatim>\<open>{"restaurant_id": x}\<close> matches a document that has a
  \<^verbatim>\<open>restaurant_id\<close> field whose value is the string \<open>x\<close>.
\<close>

fun field_restaurant_id :: "model \<Rightarrow> string option" where
  "field_restaurant_id (RestaurantDoc r) = None"
| "field_restaurant_id (MenuItemDoc m) = Some (menuitem_restaurant_id m)"
| "field_restaurant_id (OrderDoc ord) = Some (order_restaurant_id ord)"

definition restaurant_id_filter :: "string \<Rightarrow> document \<Rightarrow> bool" where
  "restaurant_id_filter x doc = (field_restaurant_id (doc_fields doc) = Some x)"

text \<open>
  \<^verbatim>\<open>list_menu\<close> first tries \<^verbatim>\<open>ObjectId(restaurant_id)\<close> inside
  \<^verbatim>\<open>try ... except Exception: pass\<close>: the identifier, or the exception, is dropped.
\<close>

definition list_menu :: "database option \<Rightarrow> string \<Rightarrow> error + json_document list" where
  "list_menu db rid =
     (case ObjectId rid of
        Inl e \<Rightarrow>
          (case get_documents db ''menuitem'' (restaurant_id_filter rid) of
             Inl e \<Rightarrow> Inl e
           | Inr docs \<Rightarrow> Inr (map stringify_id docs))
      | Inr oid \<Rightarrow>
          (case get_documents db ''menuitem'' (restaurant_id_filter rid) of
             Inl e \<Rightarrow> Inl e
           | Inr docs \<Rightarrow> Inr (map stringify_id docs)))"

text \<open>
  What a handler returns is rendered with \<^verbatim>\<open>json.dumps(..., allow_nan=False)\<close>,
  which raises \<^verbatim>\<open>ValueError\<close> on a float that is an infinity or NaN; no handler
  catches it, and the response is a 500.
\<close>

fun model_json_compliant :: "model \<Rightarrow> bool" where
  "model_json_compliant (RestaurantDoc r) = is_finite (rating r)"
| "model_json_compliant (MenuItemDoc m) = is_finite (menuitem_price m)"
| "model_json_compliant (OrderDoc ord) =
     (is_finite (order_total ord) \<and> list_all (\<lambda>i. is_finite (price i)) (order_items ord))"

definition render_documents :: "json_document list \<Rightarrow> error + json_document list" where
  "render_documents docs =
     (if list_all (\<lambda>doc. model_json_compliant (json_fields doc)) docs then Inr docs
      else Inl ValueError)"

text \<open>The route \<^verbatim>\<open>GET /restaurants/{restaurant_id}/menu\<close>: the handler, then the rendering.\<close>

definition get_menu :: "database option \<Rightarrow> string \<Rightarrow> error + json_document list" where
  "get_menu db rid =
     (case list_menu db rid of Inl e \<Rightarrow> Inl e | Inr docs \<Rightarrow> render_documents docs)"

section \<open>Order creation\<close>

text \<open>The generator \<^verbatim>\<open>item.price * item.quantity for item in payload.items\<close>.\<close>

fun products :: "OrderItem list \<Rightarrow> error + pyfloat list" where
  "products [] = Inr []"
| "products (i # is) =
     (case float_mul_int (price i) (quantity i) of
        Inl e \<Rightarrow> Inl e
      | Inr x \<Rightarrow> (case products is of Inl e \<Rightarrow> Inl e | Inr xs \<Rightarrow> Inr (x # xs)))"

record order_response =
  response_order_id :: string
  response_status :: string
  response_total :: pyfloat

text \<open>The \<^verbatim>\<open>Order\<close> the handler builds from the payload and the rounded total.\<close>

definition new_order :: "CreateOrder \<Rightarrow> pyfloat \<Rightarrow> Order" where
  "new_order payload rounded =
     \<lparr>order_restaurant_id = restaurant_id payload,
      order_customer_name = customer_name payload,
      order_address = address payload,
      order_phone = phone payload,
      order_items = items payload,
      order_total = rounded,
      order_status = ''pending''\<rparr>"

text \<open>
  The handler, on a validated payload. The parameter \<open>alg\<close> is the summation the
  interpreter's \<^verbatim>\<open>sum\<close> runs.
\<close>

definition create_order ::
  "sum_algorithm \<Rightarrow> database option \<Rightarrow> CreateOrder \<Rightarrow> (error + order_response) \<times> database option"
where
  "create_order alg db payload =
     (case db of
        None \<Rightarrow> (Inl (HTTPException 500 ''Database not configured''), None)
      | Some d \<Rightarrow>
          (case products (items payload) of
             Inl e \<Rightarrow> (Inl e, Some d)
           | Inr xs \<Rightarrow>
               (let total = py_sum alg xs;
                    ord = new_order payload (py_round total 2)
                in case create_document (Some d) ''order'' (OrderDoc ord) of
                     Inl e \<Rightarrow> (Inl e, Some d)
                   | Inr (oid, d') \<Rightarrow>
                       (Inr \<lparr>response_order_id = oid, response_status = ''pending'',
                             response_total = order_total ord\<rparr>, Some d'))))"

text \<open>
  The response of the handler is rendered with \<^verbatim>\<open>allow_nan=False\<close> as well: a
  total that is an infinity or NaN raises \<^verbatim>\<open>ValueError\<close> after the handler has
  returned.
\<close>

definition render_order_response :: "order_response \<Rightarrow> error + order_response" where
  "render_order_response r = (if is_finite (response_total r) then Inr r else Inl ValueError)"

text \<open>
  The route \<^verbatim>\<open>POST /orders\<close>: FastAPI reads the body, validates it against
  \<^verbatim>\<open>CreateOrder\<close>, calls the handler only with a valid payload and renders what the
  handler returns. The result is the response the client gets and the store after
  the request.
\<close>

definition post_orders ::
  "sum_algorithm \<Rightarrow> database option \<Rightarrow> CreateOrder_body
     \<Rightarrow> (error + order_response) \<times> database option"
where
  "post_orders alg db body =
     (case json_loads body of
        Inl e \<Rightarrow> (Inl e, db)
      | Inr b \<Rightarrow>
          (case validate_CreateOrder b of
             Inl es \<Rightarrow> (Inl (request_validation_response es), db)
           | Inr payload \<Rightarrow>
               (case create_order alg db payload of
                  (Inl e, db') \<Rightarrow> (Inl e, db')
                | (Inr r, db') \<Rightarrow> (render_order_response r, db'))))"

section \<open>Sample states and requests\<close>

definition empty_database :: database where
  "empty_database = \<lparr>collections = [], next_id = 0\<rparr>"





text \<open>The order of two items at 14.99 (twice) and 12.50 (once).\<close>

definition example_items :: "OrderItem_body list" where
  "example_items =
     [\<lparr>body_menu_item_id = Some ''m1'', body_item_name = Some ''Spaghetti Carbonara'',
       body_quantity = Some 2, body_price = Some (float_literal (1499 / 100))\<rparr>,
      \<lparr>body_menu_item_id = Some ''m2'', body_item_name = Some ''Margherita Pizza'',
       body_quantity = Some 1, body_price = Some (float_literal (125 / 10))\<rparr>]"

definition example_order :: CreateOrder_body where
  "example_order =
     \<lparr>body_restaurant_id = Some ''r1'', body_customer_name = Some ''Ada'',
      body_address = Some ''1 Main Street'', body_phone = Some ''555-0100'',
      body_items = Some example_items, body_total = None\<rparr>"

definition example_payload :: CreateOrder where
  "example_payload =
     \<lparr>restaurant_id = ''r1'', customer_name = ''Ada'', address = ''1 Main Street'',
      phone = ''555-0100'',
      items =
        [\<lparr>menu_item_id = ''m1'', item_name = ''Spaghetti Carbonara'', quantity = 2,
          price = float_literal (1499 / 100)\<rparr>,
         \<lparr>menu_item_id = ''m2'', item_name = ''Margherita Pizza'', quantity = 1,
          price = float_literal (125 / 10)\<rparr>]\<rparr>"

text \<open>The store after seeding an empty database.\<close>

definition seeded_database :: database where
  "seeded_database = snd (seed_menuitems [] (snd (seed_restaurants [] empty_database)))"

text \<open>A store whose one menu item refers to a restaurant by the string \<^verbatim>\<open>abc\<close>.\<close>

definition stray_menu_item :: MenuItem where
  "stray_menu_item =
     \<lparr>menuitem_restaurant_id = ''abc'', menuitem_name = ''Soup of the day'',
      menuitem_description = None, menuitem_price = Fin (19 / 2), menuitem_image = None,
      menuitem_category = None\<rparr>"

definition stray_menu_database :: database where
  "stray_menu_database =
     \<lparr>collections = [(''menuitem'', [\<lparr>doc_id = 7, doc_fields = MenuItemDoc stray_menu_item\<rparr>])],
      next_id = 8\<rparr>"

text \<open>An order with an empty list of items.\<close>

definition empty_items_order :: CreateOrder_body where
  "empty_items_order =
     \<lparr>body_restaurant_id = Some ''r1'', body_customer_name = Some ''Ada'',
      body_address = Some ''1 Main Street'', body_phone = Some ''555-0100'',
      body_items = Some [], body_total = None\<rparr>"

definition empty_items_payload :: CreateOrder where
  "empty_items_payload =
     \<lparr>restaurant_id = ''r1'', customer_name = ''Ada'', address = ''1 Main Street'',
      phone = ''555-0100'', items = []\<rparr>"

text \<open>Orders of one item, of the given quantity at the given price.\<close>

definition one_item_order :: "int \<Rightarrow> pyfloat \<Rightarrow> CreateOrder_body" where
  "one_item_order q p =
     \<lparr>body_restaurant_id = Some ''r1'', body_customer_name = Some ''Ada'',
      body_address = Some ''1 Main Street'', body_phone = Some ''555-0100'',
      body_items =
        Some [\<lparr>body_menu_item_id = Some ''m2'', body_item_name = Some ''Margherita Pizza'',
               body_quantity = Some q, body_price = Some p\<rparr>],
      body_total = None\<rparr>"

definition one_item_payload :: "int \<Rightarrow> pyfloat \<Rightarrow> CreateOrder" where
  "one_item_payload q p =
     \<lparr>restaurant_id = ''r1'', customer_name = ''Ada'', address = ''1 Main Street'',
      phone = ''555-0100'',
      items = [\<lparr>menu_item_id = ''m2'', item_name = ''Margherita Pizza'', quantity = q,
                price = p\<rparr>]\<rparr>"

text \<open>A quantity no float can hold.\<close>

definition huge_quantity :: int where
  "huge_quantity = 2 ^ 1024"

section \<open>Rounding to a float\<close>

lemma pow2_powi: "pow2 k = 2 powi k"
  by (simp add: pow2_def power_int_def inverse_eq_divide power_one_over)

lemma pow2_pos [simp]: "0 < pow2 k"
  by (simp add: pow2_powi)

lemma pow2_add: "pow2 (k + l) = pow2 k * pow2 l"
  by (simp add: pow2_powi power_int_add)

lemma pow2_less_iff [simp]: "pow2 k < pow2 l \<longleftrightarrow> k < l"
proof
  assume "pow2 k < pow2 l"
  show "k < l"
  proof (rule ccontr)
    assume "\<not> k < l"
    then have "l \<le> k" by simp
    then have "pow2 l \<le> pow2 k"
      unfolding pow2_powi by (intro power_int_increasing) auto
    with \<open>pow2 k < pow2 l\<close> show False by simp
  qed
next
  assume "k < l"
  then show "pow2 k < pow2 l"
    unfolding pow2_powi by (intro power_int_strict_increasing) auto
qed

lemma pow2_le_iff [simp]: "pow2 k \<le> pow2 l \<longleftrightarrow> k \<le> l"
  using pow2_less_iff [of l k] by (auto simp: not_less [symmetric] simp del: pow2_less_iff)

lemma pow2_nat: "pow2 (int n) = 2 ^ n"
  by (simp add: pow2_def)

lemma pow2_neg_nat: "pow2 (- int n) = 1 / 2 ^ n"
proof (cases n)
  case 0
  then show ?thesis by (simp add: pow2_def)
next
  case (Suc k)
  then have "\<not> 0 \<le> - int n" by simp
  then have "pow2 (- int n) = 1 / 2 ^ nat (int n)" by (simp add: pow2_def)
  then show ?thesis by (simp only: nat_int)
qed

lemma bit_length_bounds:
  "0 < n \<Longrightarrow> 2 ^ (bit_length n - 1) \<le> n \<and> n < 2 ^ bit_length n"
proof (induction n rule: bit_length.induct)
  case (1 n)
  from "1.prems" have n0: "\<not> n \<le> 0" by simp
  have bl: "bit_length n = Suc (bit_length (n div 2))"
    using n0 by (subst bit_length.simps) simp
  show ?case
  proof (cases "n div 2 \<le> 0")
    case True
    with "1.prems" have "n = 1" by linarith
    then show ?thesis by (simp add: bit_length.simps)
  next
    case False
    then have pos: "0 < n div 2" by simp
    note IH = "1.IH" [OF n0 pos]
    have blpos: "0 < bit_length (n div 2)"
      using False by (subst bit_length.simps) simp
    then obtain k where k: "bit_length (n div 2) = Suc k"
      by (cases "bit_length (n div 2)") auto
    from IH k have "2 ^ k \<le> n div 2" "n div 2 < 2 ^ Suc k" by auto
    then have "2 ^ Suc k \<le> n" "n < 2 ^ Suc (Suc k)" by auto
    with bl k show ?thesis by simp
  qed
qed

lemma bit_length_pos: "0 < n \<Longrightarrow> 0 < bit_length n"
  by (subst bit_length.simps) simp

lemma ilog2_bounds:
  assumes "0 < q"
  shows "pow2 (ilog2 q) \<le> q \<and> q < pow2 (ilog2 q + 1)"
proof (cases "1 \<le> q")
  case True
  define n where "n = \<lfloor>q\<rfloor>"
  have n1: "0 < n" using True by (simp add: n_def)
  have nq: "of_int n \<le> q" "q < of_int n + 1"
    using floor_correct [of q] by (simp_all add: n_def)
  define b where "b = bit_length n"
  have b: "2 ^ (b - 1) \<le> n" "n < 2 ^ b" "0 < b"
    using bit_length_bounds [OF n1] bit_length_pos [OF n1] by (simp_all add: b_def)
  have il: "ilog2 q = int b - 1"
    using True by (simp add: ilog2_def n_def b_def)
  have e1: "pow2 (ilog2 q) = 2 ^ (b - 1)"
    using b(3) pow2_nat [of "b - 1"] il by (simp add: of_nat_diff)
  have e2: "pow2 (ilog2 q + 1) = 2 ^ b"
    using pow2_nat [of b] il by simp
  have l1: "(2::rat) ^ (b - 1) \<le> of_int n"
  proof -
    have "(of_int (2 ^ (b - 1)) :: rat) \<le> of_int n" using b(1) by (simp only: of_int_le_iff)
    then show ?thesis by simp
  qed
  have l2: "of_int n + 1 \<le> (2::rat) ^ b"
  proof -
    have "n + 1 \<le> 2 ^ b" using b(2) by simp
    then have "(of_int (n + 1) :: rat) \<le> of_int (2 ^ b)" by (simp only: of_int_le_iff)
    then show ?thesis by simp
  qed
  have "pow2 (ilog2 q) \<le> q" unfolding e1 using l1 nq(1) by (rule order_trans)
  moreover have "q < pow2 (ilog2 q + 1)" unfolding e2 using nq(2) l2 by (rule less_le_trans)
  ultimately show ?thesis by (rule conjI)
next
  case False
  define r where "r = 1 / q"
  have r1: "1 < r" using False assms by (simp add: r_def)
  define m where "m = \<lceil>r\<rceil> - 1"
  have c2: "2 \<le> \<lceil>r\<rceil>" using r1 by (simp add: le_ceiling_iff)
  have m1: "0 < m" using c2 by (simp add: m_def)
  have mr: "of_int m < r" "r \<le> of_int m + 1"
    using ceiling_correct [of r] by (simp_all add: m_def)
  define b where "b = bit_length m"
  have b: "2 ^ (b - 1) \<le> m" "m < 2 ^ b" "0 < b"
    using bit_length_bounds [OF m1] bit_length_pos [OF m1] by (simp_all add: b_def)
  have il: "ilog2 q = - int b"
    using False by (simp add: ilog2_def m_def b_def r_def)
  have up: "r \<le> 2 ^ b"
  proof -
    have "m + 1 \<le> 2 ^ b" using b(2) by simp
    then have "(of_int (m + 1) :: rat) \<le> of_int (2 ^ b)" by (simp only: of_int_le_iff)
    then have "of_int m + 1 \<le> (2::rat) ^ b" by simp
    with mr(2) show ?thesis by (rule order_trans)
  qed
  have lo: "2 ^ (b - 1) < r"
  proof -
    have "(of_int (2 ^ (b - 1)) :: rat) \<le> of_int m" using b(1) by (simp only: of_int_le_iff)
    then have "(2::rat) ^ (b - 1) \<le> of_int m" by simp
    then show ?thesis using mr(1) by (rule le_less_trans)
  qed
  have q_eq: "q = 1 / r" using assms by (simp add: r_def)
  have e1: "pow2 (ilog2 q) = 1 / 2 ^ b"
    by (simp only: il pow2_neg_nat)
  have e2: "pow2 (ilog2 q + 1) = 1 / 2 ^ (b - 1)"
  proof -
    have eq: "ilog2 q + 1 = - int (b - 1)" using il b(3) by (simp add: of_nat_diff)
    show ?thesis by (simp only: eq pow2_neg_nat)
  qed
  have rpos: "0 < r" using r1 by simp
  have "1 / 2 ^ b \<le> 1 / r"
    using up rpos by (intro frac_le) auto
  then have "1 / 2 ^ b \<le> q" by (simp only: q_eq)
  moreover have "1 / r < 1 / 2 ^ (b - 1)"
    using lo by (intro frac_less2) auto
  then have "q < 1 / 2 ^ (b - 1)" by (simp only: q_eq)
  ultimately show ?thesis unfolding e1 e2 by (rule conjI)
qed

lemma ilog2_ge_iff:
  assumes "0 < q"
  shows "k \<le> ilog2 q \<longleftrightarrow> pow2 k \<le> q"
proof
  assume "k \<le> ilog2 q"
  then have "pow2 k \<le> pow2 (ilog2 q)" by simp
  also have "pow2 (ilog2 q) \<le> q" using ilog2_bounds [OF assms] by simp
  finally show "pow2 k \<le> q" .
next
  assume "pow2 k \<le> q"
  also have "q < pow2 (ilog2 q + 1)" using ilog2_bounds [OF assms] by simp
  finally show "k \<le> ilog2 q" by simp
qed

lemma ilog2_eqI:
  assumes "pow2 e \<le> q" and "q < pow2 (e + 1)"
  shows "ilog2 q = e"
proof -
  have q: "0 < q" by (rule less_le_trans [OF pow2_pos assms(1)])
  have "pow2 e < pow2 (ilog2 q + 1)"
    by (rule le_less_trans [OF assms(1) conjunct2 [OF ilog2_bounds [OF q]]])
  moreover have "pow2 (ilog2 q) < pow2 (e + 1)"
    by (rule le_less_trans [OF conjunct1 [OF ilog2_bounds [OF q]] assms(2)])
  ultimately show ?thesis by simp
qed

lemma round_half_even_of_int [simp]: "round_half_even (of_int k) = k"
  by (simp add: round_half_even_def)

lemma round_half_even_floor: "\<lfloor>x\<rfloor> \<le> round_half_even x \<and> round_half_even x \<le> \<lfloor>x\<rfloor> + 1"
  by (simp add: round_half_even_def Let_def)

lemma round_half_even_ge: "of_int k \<le> x \<Longrightarrow> k \<le> round_half_even x"
proof -
  assume "of_int k \<le> x"
  then have "k \<le> \<lfloor>x\<rfloor>" by (simp add: le_floor_iff)
  with round_half_even_floor [of x] show ?thesis by linarith
qed

lemma round_half_even_le: "x \<le> of_int k \<Longrightarrow> round_half_even x \<le> k"
proof (cases "x = of_int k")
  case True
  then show ?thesis by simp
next
  case False
  assume "x \<le> of_int k"
  with False have "x < of_int k" by simp
  then have "\<lfloor>x\<rfloor> < k" by (simp add: floor_less_iff)
  with round_half_even_floor [of x] show ?thesis by linarith
qed

lemma round_half_even_tie_up:
  assumes "of_int k - 1 / 2 \<le> x" and "even k"
  shows "k \<le> round_half_even x"
proof (cases "of_int k \<le> x")
  case True
  then show ?thesis by (rule round_half_even_ge)
next
  case False
  then have lt: "x < of_int k" by simp
  have "of_int (k - 1) \<le> x" using assms(1) by simp
  then have "k - 1 \<le> \<lfloor>x\<rfloor>" by (simp only: le_floor_iff)
  moreover have "\<lfloor>x\<rfloor> < k" using lt by (simp add: floor_less_iff)
  ultimately have f: "\<lfloor>x\<rfloor> = k - 1" by linarith
  have odd: "odd (k - 1)" using assms(2) by simp
  have d: "1 / 2 \<le> x - of_int (k - 1)" using assms(1) by simp
  show ?thesis
    using d odd by (simp add: round_half_even_def Let_def f)
qed

lemma round_half_even_below:
  assumes "x < of_int k - 1 / 2"
  shows "round_half_even x < k"
proof -
  have "x < of_int k" using assms by simp
  then have fk: "\<lfloor>x\<rfloor> < k" by (simp add: floor_less_iff)
  show ?thesis
  proof (cases "\<lfloor>x\<rfloor> = k - 1")
    case True
    have "x - of_int (k - 1) < 1 / 2" using assms by simp
    then show ?thesis by (simp add: round_half_even_def Let_def True)
  next
    case False
    with fk have "\<lfloor>x\<rfloor> + 1 < k" by linarith
    with round_half_even_floor [of x] show ?thesis by linarith
  qed
qed

lemma pow2_split: "pow2 (e + 1) = pow2 53 * pow2 (e - 52)"
proof -
  have "e + 1 = 53 + (e - 52)" by simp
  then show ?thesis by (simp only: pow2_add)
qed

lemma pow2_split_lo: "pow2 e = pow2 52 * pow2 (e - 52)"
proof -
  have "e = 52 + (e - 52)" by simp
  then have "pow2 e = pow2 (52 + (e - 52))" by simp
  then show ?thesis by (simp only: pow2_add)
qed

lemma pow2_53: "pow2 53 = of_int (2 ^ 53)"
  by (simp add: pow2_def)

lemma pow2_52: "pow2 52 = of_int (2 ^ 52)"
  by (simp add: pow2_def)

lemma scaled_round_upper:
  assumes "a < pow2 (e + 1)"
  shows "of_int (round_half_even (a / pow2 (e - 52))) * pow2 (e - 52) \<le> pow2 (e + 1)"
proof -
  let ?u = "pow2 (e - 52)"
  have u: "0 < ?u" by simp
  have "a / ?u < pow2 53"
    using assms u by (simp add: pow2_split pos_divide_less_eq)
  then have "a / ?u \<le> of_int (2 ^ 53)" by (simp only: pow2_53 less_imp_le)
  then have "round_half_even (a / ?u) \<le> 2 ^ 53" by (rule round_half_even_le)
  then have "(of_int (round_half_even (a / ?u)) :: rat) \<le> of_int (2 ^ 53)"
    by (simp only: of_int_le_iff)
  then have "of_int (round_half_even (a / ?u)) * ?u \<le> of_int (2 ^ 53) * ?u"
    using u by (simp only: mult_le_cancel_right_pos)
  then show ?thesis by (simp only: pow2_split pow2_53)
qed

lemma scaled_round_lower:
  assumes "pow2 e \<le> a"
  shows "pow2 e \<le> of_int (round_half_even (a / pow2 (e - 52))) * pow2 (e - 52)"
proof -
  let ?u = "pow2 (e - 52)"
  have u: "0 < ?u" by simp
  have "pow2 52 \<le> a / ?u"
    using assms u by (simp add: pow2_split_lo [of e] pos_le_divide_eq)
  then have "of_int (2 ^ 52) \<le> a / ?u" by (simp only: pow2_52)
  then have "2 ^ 52 \<le> round_half_even (a / ?u)" by (rule round_half_even_ge)
  then have "(of_int (2 ^ 52) :: rat) \<le> of_int (round_half_even (a / ?u))"
    by (simp only: of_int_le_iff)
  then have "of_int (2 ^ 52) * ?u \<le> of_int (round_half_even (a / ?u)) * ?u"
    using u by (simp only: mult_le_cancel_right_pos)
  then show ?thesis by (simp only: pow2_split_lo [of e] pow2_52)
qed

lemma pow2_1024_971: "pow2 1024 = pow2 53 * pow2 971"
  using pow2_split [of 1023] by simp

lemma pow2_970_971: "pow2 970 = (1 / 2) * pow2 971"
proof -
  have "pow2 971 = pow2 1 * pow2 970" using pow2_add [of 1 970] by simp
  moreover have "pow2 1 = 2" by (simp add: pow2_def)
  ultimately show ?thesis by simp
qed

lemma float_max_bound_alt: "float_max_bound = (pow2 53 - 1 / 2) * pow2 971"
  by (simp add: float_max_bound_def pow2_1024_971 pow2_970_971 algebra_simps)

lemma float_max_bound_ge: "pow2 1023 \<le> float_max_bound"
proof -
  have "pow2 1024 = pow2 1 * pow2 1023" using pow2_add [of 1 1023] by simp
  moreover have "pow2 1 = 2" by (simp add: pow2_def)
  ultimately have a: "pow2 1024 = 2 * pow2 1023" by simp
  have b: "pow2 970 \<le> pow2 1023" by simp
  show ?thesis unfolding float_max_bound_def a using b by linarith
qed

lemma float_max_bound_lt: "float_max_bound < pow2 1024"
  unfolding float_max_bound_def using pow2_pos [of 970] by linarith

text \<open>The rounded magnitude reaches \<open>2\<^sup>1\<^sup>0\<^sup>2\<^sup>4\<close> exactly from \<open>2\<^sup>1\<^sup>0\<^sup>2\<^sup>4 - 2\<^sup>9\<^sup>7\<^sup>0\<close> on.\<close>

lemma rounded_overflow_iff:
  assumes a: "0 < a"
  defines "e \<equiv> max (ilog2 a) (- 1022)"
  shows "pow2 1024 \<le> of_int (round_half_even (a / pow2 (e - 52))) * pow2 (e - 52)
         \<longleftrightarrow> float_max_bound \<le> a"
proof -
  let ?u = "pow2 (e - 52)"
  let ?m = "round_half_even (a / ?u)"
  let ?r = "of_int ?m * ?u"
  have u: "0 < ?u" by simp
  have il: "pow2 (ilog2 a) \<le> a" "a < pow2 (ilog2 a + 1)"
    using ilog2_bounds [OF a] by simp_all
  have "ilog2 a \<le> e" by (simp add: e_def)
  then have "pow2 (ilog2 a + 1) \<le> pow2 (e + 1)" by simp
  with il(2) have up: "a < pow2 (e + 1)" by (rule less_le_trans)
  have r_up: "?r \<le> pow2 (e + 1)" using up by (rule scaled_round_upper)
  show ?thesis
  proof
    assume ov: "pow2 1024 \<le> ?r"
    then have "pow2 1024 \<le> pow2 (e + 1)" using r_up by (rule order_trans)
    then have e1023: "1023 \<le> e" by simp
    then have e_il: "e = ilog2 a" by (simp add: e_def max_def split: if_splits)
    show "float_max_bound \<le> a"
    proof (cases "1024 \<le> e")
      case True
      then have "pow2 1024 \<le> pow2 e" by simp
      also have "pow2 e \<le> a" using il(1) by (simp only: e_il)
      finally show ?thesis using float_max_bound_lt by linarith
    next
      case False
      with e1023 have e: "e = 1023" by simp
      show ?thesis
      proof (rule ccontr)
        assume "\<not> float_max_bound \<le> a"
        then have "a < (pow2 53 - 1 / 2) * pow2 971" by (simp add: float_max_bound_alt)
        then have "a / pow2 971 < pow2 53 - 1 / 2"
          by (simp add: pos_divide_less_eq)
        then have "a / pow2 971 < of_int (2 ^ 53) - 1 / 2" by (simp only: pow2_53)
        then have "round_half_even (a / pow2 971) < 2 ^ 53" by (rule round_half_even_below)
        then have "round_half_even (a / pow2 971) \<le> 2 ^ 53 - 1" by simp
        then have "(of_int (round_half_even (a / pow2 971)) :: rat) \<le> of_int (2 ^ 53 - 1)"
          by (simp only: of_int_le_iff)
        then have "of_int (round_half_even (a / pow2 971)) * pow2 971
                   \<le> of_int (2 ^ 53 - 1) * pow2 971"
          by (simp only: mult_le_cancel_right_pos pow2_pos)
        also have "\<dots> = pow2 1024 - pow2 971"
          by (simp add: pow2_1024_971 pow2_53 algebra_simps)
        also have "\<dots> < pow2 1024" using pow2_pos [of 971] by linarith
        finally have "of_int (round_half_even (a / pow2 971)) * pow2 971 < pow2 1024" .
        with ov show False by (simp add: e)
      qed
    qed
  next
    assume big: "float_max_bound \<le> a"
    with float_max_bound_ge have "pow2 1023 \<le> a" by (rule order_trans)
    then have "1023 \<le> ilog2 a" by (simp only: ilog2_ge_iff [OF a])
    then have e_il: "e = ilog2 a" and e1023: "1023 \<le> e" by (simp_all add: e_def)
    have lo: "pow2 e \<le> a" using il(1) by (simp only: e_il)
    show "pow2 1024 \<le> ?r"
    proof (cases "1024 \<le> e")
      case True
      then have "pow2 1024 \<le> pow2 e" by simp
      also have "pow2 e \<le> ?r" using lo by (rule scaled_round_lower)
      finally show ?thesis .
    next
      case False
      with e1023 have e: "e = 1023" by simp
      have "(pow2 53 - 1 / 2) * pow2 971 \<le> a" using big by (simp only: float_max_bound_alt)
      then have "pow2 53 - 1 / 2 \<le> a / pow2 971"
        by (simp add: pos_le_divide_eq)
      then have "of_int (2 ^ 53) - 1 / 2 \<le> a / pow2 971" by (simp only: pow2_53)
      moreover have "even ((2::int) ^ 53)" by simp
      ultimately have "2 ^ 53 \<le> round_half_even (a / pow2 971)"
        by (rule round_half_even_tie_up)
      then have "(of_int (2 ^ 53) :: rat) \<le> of_int (round_half_even (a / pow2 971))"
        by (simp only: of_int_le_iff)
      then have "of_int (2 ^ 53) * pow2 971
                 \<le> of_int (round_half_even (a / pow2 971)) * pow2 971"
        by (simp only: mult_le_cancel_right_pos pow2_pos)
      then have "pow2 1024 \<le> of_int (round_half_even (a / pow2 971)) * pow2 971"
        by (simp only: pow2_1024_971 pow2_53)
      then show ?thesis by (simp add: e)
    qed
  qed
qed

lemma fl_finite_iff: "is_finite (fl q) \<longleftrightarrow> \<bar>q\<bar> < float_max_bound"
proof (cases "q = 0")
  case True
  have "0 < float_max_bound"
    using float_max_bound_ge pow2_pos [of 1023] by linarith
  with True show ?thesis by (simp add: fl_def)
next
  case False
  then have a: "0 < \<bar>q\<bar>" by simp
  show ?thesis
    using False rounded_overflow_iff [OF a]
    by (simp add: fl_def Let_def not_le [symmetric] del: not_le)
qed

lemma int_to_float_overflow_iff:
  "int_to_float n = Inl OverflowError \<longleftrightarrow> float_max_bound \<le> \<bar>of_int n\<bar>"
proof -
  have "int_to_float n = Inl OverflowError \<longleftrightarrow> \<not> is_finite (fl (of_int n))"
    by (cases "fl (of_int n)") (simp_all add: int_to_float_def)
  then show ?thesis using fl_finite_iff [of "of_int n"] by (simp add: not_less)
qed

lemma ilog2_zero: "ilog2 0 = 0"
  by (simp add: ilog2_def bit_length.simps)

lemma pow2_le_iff_ilog2: "0 \<le> r \<Longrightarrow> pow2 k \<le> r \<longleftrightarrow> (r \<noteq> 0 \<and> k \<le> ilog2 r)"
proof (cases "r = 0")
  case True
  then show ?thesis using pow2_pos [of k] by (simp add: not_le)
next
  case False
  assume "0 \<le> r"
  with False have "0 < r" by simp
  then show ?thesis using False by (simp add: ilog2_ge_iff)
qed

lemma fl_code [code]:
  "fl q =
     (if q = 0 then Fin 0
      else let a = \<bar>q\<bar>;
               e = max (ilog2 a) (- 1022);
               u = pow2 (e - 52);
               r = of_int (round_half_even (a / u)) * u
           in if r \<noteq> 0 \<and> 1024 \<le> ilog2 r then (if q < 0 then NInf else PInf)
              else Fin (if q < 0 then - r else r))"
proof (cases "q = 0")
  case True
  then show ?thesis by (simp add: fl_def)
next
  case False
  let ?e = "max (ilog2 \<bar>q\<bar>) (- 1022)"
  let ?u = "pow2 (?e - 52)"
  let ?r = "of_int (round_half_even (\<bar>q\<bar> / ?u)) * ?u"
  have "0 \<le> \<bar>q\<bar> / ?u"
    by (rule divide_nonneg_pos) simp_all
  then have "0 \<le> round_half_even (\<bar>q\<bar> / ?u)"
    using round_half_even_ge [of 0 "\<bar>q\<bar> / ?u"] by simp
  then have "0 \<le> ?r"
    by (intro mult_nonneg_nonneg) (simp_all add: less_imp_le)
  then have "pow2 1024 \<le> ?r \<longleftrightarrow> (?r \<noteq> 0 \<and> 1024 \<le> ilog2 ?r)"
    by (rule pow2_le_iff_ilog2)
  then show ?thesis using False by (simp add: fl_def Let_def)
qed

section \<open>Insertion into the store\<close>

lemma map_of_put_collection:
  "map_of (put_collection c ds cs) = (map_of cs)(c \<mapsto> ds)"
  by (induction cs) (auto simp: fun_eq_iff)

lemma fst_put_collection:
  "fst ` set (put_collection c ds cs) = insert c (fst ` set cs)"
  by (simp add: dom_map_of_conv_image_fst [symmetric] map_of_put_collection)

lemma find_docs_store_document:
  "find_docs (snd (store_document d c x)) c' =
     (if c' = c then find_docs d c @ [\<lparr>doc_id = next_id d, doc_fields = x\<rparr>] else find_docs d c')"
  by (simp add: store_document_def find_docs_def Let_def map_of_put_collection)

lemma names_store_document:
  "set (list_collection_names (snd (store_document d c x))) = insert c (set (list_collection_names d))"
  by (simp add: store_document_def list_collection_names_def Let_def fst_put_collection)

lemma create_document_Some:
  "bson_encodable x
   \<Longrightarrow> create_document (Some d) c x = Inr (str_oid (next_id d), snd (store_document d c x))"
  by (simp add: create_document_def insert_one_def store_document_def Let_def)

lemma create_document_overflow:
  "\<not> bson_encodable x \<Longrightarrow> create_document (Some d) c x = Inl OverflowError"
  by (simp add: create_document_def insert_one_def)

lemma find_docs_nonempty_name:
  "find_docs d c \<noteq> [] \<Longrightarrow> c \<in> set (list_collection_names d)"
  by (auto simp: find_docs_def list_collection_names_def split: option.splits
      dest: map_of_SomeD intro: rev_image_eqI)

lemma create_documents_count:
  "list_all bson_encodable xs \<Longrightarrow> fst (create_documents c xs d n) = Inr (n + int (length xs))"
  by (induction xs arbitrary: d n) (simp_all add: create_document_Some)

lemma create_documents_other:
  "list_all bson_encodable xs \<Longrightarrow> c' \<noteq> c
   \<Longrightarrow> find_docs (snd (create_documents c xs d n)) c' = find_docs d c'"
  by (induction xs arbitrary: d n) (simp_all add: create_document_Some find_docs_store_document)


lemma next_id_store_document: "next_id (snd (store_document d c x)) = next_id d + 1"
  by (simp add: store_document_def Let_def)

lemma create_documents_appended:
  "list_all bson_encodable xs
   \<Longrightarrow> find_docs (snd (create_documents c xs d n)) c = find_docs d c @ new_documents (next_id d) xs"
  by (induction xs arbitrary: d n)
    (simp_all add: create_document_Some find_docs_store_document next_id_store_document)

lemma map_doc_fields_new_documents: "map doc_fields (new_documents oid xs) = xs"
  by (induction xs arbitrary: oid) simp_all

lemma new_documents_Nil_iff: "new_documents oid xs = [] \<longleftrightarrow> xs = []"
  by (cases xs) simp_all

section \<open>The phases of seeding\<close>

lemma create_documents_eq:
  "list_all bson_encodable xs
   \<Longrightarrow> create_documents c xs d n = (Inr (n + int (length xs)), snd (create_documents c xs d n))"
  by (simp add: prod_eq_iff create_documents_count)

lemma encodable_sample_restaurants:
  "list_all bson_encodable (map RestaurantDoc sample_restaurants)"
  by (simp add: sample_restaurants_def bson_int_def)

lemma encodable_menu_items: "list_all bson_encodable (map MenuItemDoc ms)"
  by (simp add: list_all_iff)

lemmas create_restaurants_eq = create_documents_eq [OF encodable_sample_restaurants]
lemmas create_menu_items_eq = create_documents_eq [OF encodable_menu_items]
lemmas create_restaurants_appended = create_documents_appended [OF encodable_sample_restaurants]
lemmas create_menu_items_appended = create_documents_appended [OF encodable_menu_items]
lemmas create_restaurants_other = create_documents_other [OF encodable_sample_restaurants]
lemmas create_menu_items_other = create_documents_other [OF encodable_menu_items]

lemma length_sample_restaurants: "length sample_restaurants = 3"
  by (simp add: sample_restaurants_def)

lemma length_sample_items: "length (sample_items a b c) = 4"
  by (simp add: sample_items_def)

lemma seed_restaurants_eq:
  "seed_restaurants colls d =
     (if ''restaurant'' \<notin> set colls \<or> find_docs d ''restaurant'' = []
      then (Inr 3, snd (create_documents ''restaurant'' (map RestaurantDoc sample_restaurants) d 0))
      else (Inr 0, d))"
  unfolding seed_restaurants_def count_documents_def
  by (subst create_restaurants_eq) (simp add: length_sample_restaurants)

lemma seed_menuitems_eq:
  "seed_menuitems colls d =
     (if (''menuitem'' \<notin> set colls \<or> find_docs d ''menuitem'' = [])
         \<and> find_docs d ''restaurant'' \<noteq> []
      then (Inr 4,
            snd (create_documents ''menuitem''
                  (map MenuItemDoc
                    (sample_items
                      (doc_id (find_docs d ''restaurant'' ! 0))
                      (if 1 < length (find_docs d ''restaurant'')
                       then doc_id (find_docs d ''restaurant'' ! 1)
                       else doc_id (find_docs d ''restaurant'' ! 0))
                      (if 2 < length (find_docs d ''restaurant'')
                       then doc_id (find_docs d ''restaurant'' ! 2)
                       else doc_id (find_docs d ''restaurant'' ! 0)))) d 0))
      else (Inr 0, d))"
  unfolding seed_menuitems_def count_documents_def Let_def
  by (subst create_menu_items_eq) (simp add: length_sample_items)

lemma sample_restaurants_nonempty: "sample_restaurants \<noteq> []"
  using length_sample_restaurants by auto

lemma sample_items_nonempty: "sample_items a b c \<noteq> []"
  using length_sample_items [of a b c] by auto

lemma seed_restaurants_nonempty:
  "find_docs (snd (seed_restaurants (list_collection_names d) d)) ''restaurant'' \<noteq> []"
  by (simp add: seed_restaurants_eq create_restaurants_appended new_documents_Nil_iff
      sample_restaurants_nonempty)

lemma seed_restaurants_menuitem:
  "find_docs (snd (seed_restaurants colls d)) ''menuitem'' = find_docs d ''menuitem''"
  by (simp add: seed_restaurants_eq create_restaurants_other)

lemma seed_menuitems_restaurant:
  "find_docs (snd (seed_menuitems colls d)) ''restaurant'' = find_docs d ''restaurant''"
  by (simp add: seed_menuitems_eq create_menu_items_other)

lemma seed_menuitems_nonempty:
  "find_docs d ''restaurant'' \<noteq> [] \<Longrightarrow> find_docs (snd (seed_menuitems colls d)) ''menuitem'' \<noteq> []"
  by (simp add: seed_menuitems_eq create_menu_items_appended new_documents_Nil_iff
      sample_items_nonempty)

lemma seed_data_Some:
  "seed_data (Some d) =
     (Inr \<lparr>restaurants =
              (if ''restaurant'' \<notin> set (list_collection_names d) \<or> find_docs d ''restaurant'' = []
               then 3 else 0),
           menuitem =
              (if ''menuitem'' \<notin> set (list_collection_names d) \<or> find_docs d ''menuitem'' = []
               then 4 else 0)\<rparr>,
      Some (snd (seed_menuitems (list_collection_names d)
                  (snd (seed_restaurants (list_collection_names d) d)))))"
proof -
  define colls where "colls = list_collection_names d"
  define d1 where "d1 = snd (seed_restaurants colls d)"
  define d2 where "d2 = snd (seed_menuitems colls d1)"
  have r: "seed_restaurants colls d =
             (Inr (if ''restaurant'' \<notin> set colls \<or> find_docs d ''restaurant'' = []
                   then 3 else 0), d1)"
    by (simp add: d1_def seed_restaurants_eq)
  have ne: "find_docs d1 ''restaurant'' \<noteq> []"
    unfolding d1_def colls_def by (rule seed_restaurants_nonempty)
  have mi: "find_docs d1 ''menuitem'' = find_docs d ''menuitem''"
    unfolding d1_def by (rule seed_restaurants_menuitem)
  have m: "seed_menuitems colls d1 =
             (Inr (if ''menuitem'' \<notin> set colls \<or> find_docs d ''menuitem'' = []
                   then 4 else 0), d2)"
    using ne by (simp add: d2_def seed_menuitems_eq [of colls d1] mi)
  have "seed_data (Some d) =
     (Inr \<lparr>restaurants =
              (if ''restaurant'' \<notin> set colls \<or> find_docs d ''restaurant'' = [] then 3 else 0),
           menuitem =
              (if ''menuitem'' \<notin> set colls \<or> find_docs d ''menuitem'' = [] then 4 else 0)\<rparr>,
      Some d2)"
    by (simp only: seed_data_def option.case Let_def colls_def [symmetric] r m prod.case sum.case)
  then show ?thesis by (simp only: d2_def d1_def colls_def)
qed

lemma seed_data_settled:
  assumes "find_docs d ''restaurant'' \<noteq> []" and "find_docs d ''menuitem'' \<noteq> []"
  shows "seed_data (Some d) = (Inr \<lparr>restaurants = 0, menuitem = 0\<rparr>, Some d)"
proof -
  let ?colls = "list_collection_names d"
  have r: "seed_restaurants ?colls d = (Inr 0, d)"
    using assms(1) find_docs_nonempty_name [OF assms(1)] by (simp add: seed_restaurants_eq)
  have m: "seed_menuitems ?colls d = (Inr 0, d)"
    using assms(2) find_docs_nonempty_name [OF assms(2)] by (simp add: seed_menuitems_eq)
  show ?thesis
    by (simp only: seed_data_def option.case Let_def r m prod.case sum.case)
qed

lemma seed_data_result_nonempty:
  "find_docs (snd (seed_menuitems (list_collection_names d)
      (snd (seed_restaurants (list_collection_names d) d)))) ''restaurant'' \<noteq> []"
  "find_docs (snd (seed_menuitems (list_collection_names d)
      (snd (seed_restaurants (list_collection_names d) d)))) ''menuitem'' \<noteq> []"
  by (simp_all add: seed_menuitems_restaurant seed_restaurants_nonempty seed_menuitems_nonempty)

section \<open>Validation of the request body\<close>

lemma decimal_digits_small: "\<bar>n\<bar> < 10 \<Longrightarrow> decimal_digits n = 1"
  by (simp add: decimal_digits.simps)









lemma json_loads_Inr: "json_loads body = Inr b \<Longrightarrow> b = body"
  by (simp add: json_loads_def split: if_splits)





section \<open>The store that was never initialised\<close>

lemma example_order_loads: "json_loads example_order = Inr example_order"
  by (simp add: json_loads_def example_order_def example_items_def item_loads_def
      int_literal_loads_def decimal_digits_small int_max_str_digits_def)

lemma example_order_valid: "validate_CreateOrder example_order = Inr example_payload"
  by (simp add: validate_CreateOrder_def example_order_def example_items_def
      validate_OrderItem_def example_payload_def)

text \<open>
  Claim C8. With no store (\<^verbatim>\<open>db is None\<close>) the seed handler and the create-order
  handler raise the \<^verbatim>\<open>HTTPException\<close> 500 \<^verbatim>\<open>Database not configured\<close> before
  anything else, a server error, and there is still no store afterwards. On the route
  \<^verbatim>\<open>POST /orders\<close> a body that validates reaches the handler and gets that
  response; no body gets a success, and none brings a store about.
\<close>

theorem unavailable_store_fails_fast:
  "seed_data None = (Inl (HTTPException 500 ''Database not configured''), None)
   \<and> create_order alg None payload = (Inl (HTTPException 500 ''Database not configured''), None)
   \<and> is_server_error (HTTPException 500 ''Database not configured'')
   \<and> (json_loads body = Inr body \<and> validate_CreateOrder body = Inr payload
        \<longrightarrow> post_orders alg None body
              = (Inl (HTTPException 500 ''Database not configured''), None))
   \<and> (\<exists>e. post_orders alg None body = (Inl e, None))"
proof -
  have c: "create_order alg None p = (Inl (HTTPException 500 ''Database not configured''), None)"
    for p
    by (simp add: create_order_def)
  have "\<exists>e. post_orders alg None body = (Inl e, None)"
    by (simp add: post_orders_def c split: sum.splits)
  then show ?thesis
    by (simp add: seed_data_def c is_server_error_def post_orders_def)
qed

theorem unavailable_store_fails_fast_witness:
  "json_loads example_order = Inr example_order
   \<and> validate_CreateOrder example_order = Inr example_payload
   \<and> post_orders Neumaier None example_order
       = (Inl (HTTPException 500 ''Database not configured''), None)
   \<and> create_order Neumaier None example_payload
       = (Inl (HTTPException 500 ''Database not configured''), None)
   \<and> seed_data None = (Inl (HTTPException 500 ''Database not configured''), None)
   \<and> status_code (HTTPException 500 ''Database not configured'') = 500"
  using unavailable_store_fails_fast [of Neumaier example_payload example_order]
  by (simp add: example_order_loads example_order_valid)

section \<open>Seeding\<close>

lemma names_empty_database: "list_collection_names empty_database = []"
  by (simp add: list_collection_names_def empty_database_def)

lemma find_docs_empty_database: "find_docs empty_database c = []"
  by (simp add: find_docs_def empty_database_def)

lemma seeded_database_nonempty:
  "find_docs seeded_database ''restaurant'' \<noteq> []"
  "find_docs seeded_database ''menuitem'' \<noteq> []"
  using seed_data_result_nonempty [of empty_database]
  by (simp_all add: seeded_database_def names_empty_database)

lemma seed_data_empty_database:
  "seed_data (Some empty_database)
     = (Inr \<lparr>restaurants = 3, menuitem = 4\<rparr>, Some seeded_database)"
  by (simp add: seed_data_Some names_empty_database seeded_database_def)

text \<open>
  Claim C10. On an initialised store the seed operation always returns counts, and
  the count of restaurants is 0 or 3, the count of menu items 0 or 4. The menu-item
  phase, run on a store whose restaurant collection holds no document, inserts
  nothing and counts 0, whatever the state of the menu-item collection (absent and
  empty included).
\<close>

theorem seed_counts:
  "(\<exists>c d'. seed_data (Some d) = (Inr c, Some d')
            \<and> (restaurants c = 0 \<or> restaurants c = 3)
            \<and> (menuitem c = 0 \<or> menuitem c = 4))
   \<and> (find_docs d ''restaurant'' = [] \<longrightarrow> seed_menuitems colls d = (Inr 0, d))"
  by (simp add: seed_data_Some seed_menuitems_eq)

theorem seed_counts_witness:
  "seed_data (Some empty_database) = (Inr \<lparr>restaurants = 3, menuitem = 4\<rparr>, Some seeded_database)
   \<and> find_docs empty_database ''restaurant'' = []
   \<and> find_docs empty_database ''menuitem'' = []
   \<and> seed_menuitems [] empty_database = (Inr 0, empty_database)"
  using seed_counts [of empty_database "[]"]
  by (simp add: seed_data_empty_database find_docs_empty_database)

text \<open>
  Claim C5. A seed call on an initialised store leaves both collections non-empty,
  so the seed call that follows it inserts nothing, neither a restaurant nor a menu
  item a second time: it returns the store it was given and reports both counts as
  zero. The same holds for every call on a store whose restaurant and menu-item
  collections are both non-empty.
\<close>

theorem seed_idempotent:
  "(\<exists>c d1. seed_data (Some d) = (Inr c, Some d1)
            \<and> seed_data (Some d1) = (Inr \<lparr>restaurants = 0, menuitem = 0\<rparr>, Some d1))
   \<and> (find_docs d ''restaurant'' \<noteq> [] \<and> find_docs d ''menuitem'' \<noteq> []
        \<longrightarrow> seed_data (Some d) = (Inr \<lparr>restaurants = 0, menuitem = 0\<rparr>, Some d))"
proof -
  let ?d1 = "snd (seed_menuitems (list_collection_names d)
                (snd (seed_restaurants (list_collection_names d) d)))"
  have "seed_data (Some ?d1) = (Inr \<lparr>restaurants = 0, menuitem = 0\<rparr>, Some ?d1)"
    using seed_data_result_nonempty [of d] by (rule seed_data_settled)
  then have "\<exists>c d1. seed_data (Some d) = (Inr c, Some d1)
      \<and> seed_data (Some d1) = (Inr \<lparr>restaurants = 0, menuitem = 0\<rparr>, Some d1)"
    by (subst seed_data_Some) blast
  then show ?thesis using seed_data_settled [of d] by blast
qed

theorem seed_idempotent_witness:
  "seed_data (Some empty_database) = (Inr \<lparr>restaurants = 3, menuitem = 4\<rparr>, Some seeded_database)
   \<and> find_docs seeded_database ''restaurant'' \<noteq> []
   \<and> find_docs seeded_database ''menuitem'' \<noteq> []
   \<and> seed_data (Some seeded_database)
       = (Inr \<lparr>restaurants = 0, menuitem = 0\<rparr>, Some seeded_database)"
  using seed_idempotent [of seeded_database]
  by (simp add: seed_data_empty_database seeded_database_nonempty)

lemma sample_items_restaurant_ids:
  "map menuitem_restaurant_id (sample_items a b c) = [str_oid a, str_oid a, str_oid b, str_oid c]"
  by (simp add: sample_items_def)

lemma seed_menuitems_appended:
  "\<exists>new. find_docs (snd (seed_menuitems colls d)) ''menuitem'' = find_docs d ''menuitem'' @ new
     \<and> map doc_fields new =
         (if (''menuitem'' \<notin> set colls \<or> find_docs d ''menuitem'' = [])
             \<and> find_docs d ''restaurant'' \<noteq> []
          then map MenuItemDoc
                 (sample_items
                    (doc_id (find_docs d ''restaurant'' ! 0))
                    (if 1 < length (find_docs d ''restaurant'')
                     then doc_id (find_docs d ''restaurant'' ! 1)
                     else doc_id (find_docs d ''restaurant'' ! 0))
                    (if 2 < length (find_docs d ''restaurant'')
                     then doc_id (find_docs d ''restaurant'' ! 2)
                     else doc_id (find_docs d ''restaurant'' ! 0)))
          else [])"
  by (simp add: seed_menuitems_eq create_menu_items_appended map_doc_fields_new_documents)

lemma targets_present:
  assumes "rs \<noteq> []"
  shows "rs ! 0 \<in> set rs"
    and "(if 1 < length rs then rs ! 1 else rs ! 0) \<in> set rs"
    and "(if 2 < length rs then rs ! 2 else rs ! 0) \<in> set rs"
  using assms by (auto simp: in_set_conv_nth)

text \<open>
  Claim C6. When the seed operation returns, the restaurant collection is what the
  menu-item phase found (it is never empty then), and the menu-item collection is
  what it was before the call followed by the documents the phase stored: none, or
  the four sample items in order. The first two of them carry the identifier string
  of the first restaurant, the third that of the second restaurant, the fourth that
  of the third restaurant, where the first restaurant stands in for a second or a
  third one that does not exist. So each seeded item carries the identifier string
  of a restaurant in the store.
\<close>

theorem seeded_menu_items_reference_restaurants:
  assumes "seed_data (Some d) = (Inr c, Some d2)"
  shows "\<exists>rs first second third new.
           rs = find_docs (snd (seed_restaurants (list_collection_names d) d)) ''restaurant''
         \<and> find_docs d2 ''restaurant'' = rs \<and> rs \<noteq> []
         \<and> first = doc_id (rs ! 0)
         \<and> second = (if 1 < length rs then doc_id (rs ! 1) else first)
         \<and> third = (if 2 < length rs then doc_id (rs ! 2) else first)
         \<and> find_docs d2 ''menuitem'' = find_docs d ''menuitem'' @ new
         \<and> map doc_fields new =
             (if menuitem c = 0 then []
              else map MenuItemDoc (sample_items first second third))
         \<and> map menuitem_restaurant_id (sample_items first second third)
             = [str_oid first, str_oid first, str_oid second, str_oid third]
         \<and> (\<forall>m\<in>set (sample_items first second third).
               \<exists>r\<in>set rs. menuitem_restaurant_id m = str_oid (doc_id r))"
proof -
  define colls where "colls = list_collection_names d"
  define d1 where "d1 = snd (seed_restaurants colls d)"
  define rs where "rs = find_docs d1 ''restaurant''"
  define first where "first = doc_id (rs ! 0)"
  define second where "second = (if 1 < length rs then doc_id (rs ! 1) else first)"
  define third where "third = (if 2 < length rs then doc_id (rs ! 2) else first)"
  from assms have c: "menuitem c = (if ''menuitem'' \<notin> set colls \<or> find_docs d ''menuitem'' = []
                                    then 4 else 0)"
    and d2: "d2 = snd (seed_menuitems colls d1)"
    by (auto simp: seed_data_Some colls_def d1_def)
  have ne: "rs \<noteq> []"
    unfolding rs_def d1_def colls_def by (rule seed_restaurants_nonempty)
  have keep: "find_docs d2 ''restaurant'' = rs"
    unfolding d2 rs_def by (rule seed_menuitems_restaurant)
  have mi: "find_docs d1 ''menuitem'' = find_docs d ''menuitem''"
    unfolding d1_def by (rule seed_restaurants_menuitem)
  obtain new where new: "find_docs d2 ''menuitem'' = find_docs d ''menuitem'' @ new"
    and fields: "map doc_fields new =
         (if menuitem c = 0 then [] else map MenuItemDoc (sample_items first second third))"
    using seed_menuitems_appended [of colls d1] ne
    unfolding d2 mi c first_def second_def third_def rs_def by auto
  have ids: "map menuitem_restaurant_id (sample_items first second third)
      = [str_oid first, str_oid first, str_oid second, str_oid third]"
    by (rule sample_items_restaurant_ids)
  have f: "first \<in> doc_id ` set rs" "second \<in> doc_id ` set rs" "third \<in> doc_id ` set rs"
    using targets_present [OF ne] unfolding first_def second_def third_def
    by (auto simp: image_iff)
  have present: "\<exists>r\<in>set rs. menuitem_restaurant_id m = str_oid (doc_id r)"
    if "m \<in> set (sample_items first second third)" for m
  proof -
    from that have "menuitem_restaurant_id m
        \<in> set (map menuitem_restaurant_id (sample_items first second third))"
      by simp
    then have "menuitem_restaurant_id m \<in> {str_oid first, str_oid second, str_oid third}"
      unfolding ids by auto
    with f show ?thesis by auto
  qed
  show ?thesis
    using keep ne new fields ids present
    unfolding rs_def [symmetric] d1_def [symmetric] colls_def [symmetric]
      first_def [symmetric] second_def [symmetric] third_def [symmetric]
    by (intro exI [of _ rs] exI [of _ first] exI [of _ second] exI [of _ third] exI [of _ new])
      (simp add: rs_def d1_def colls_def first_def second_def third_def)
qed

lemma next_id_empty_database: "next_id empty_database = 0"
  by (simp add: empty_database_def)

lemma seeded_restaurants:
  "find_docs seeded_database ''restaurant''
     = new_documents 0 (map RestaurantDoc sample_restaurants)"
  by (simp add: seeded_database_def seed_menuitems_restaurant seed_restaurants_eq
      create_restaurants_appended find_docs_empty_database next_id_empty_database)

lemma seeded_restaurant_ids:
  "map doc_id (find_docs seeded_database ''restaurant'') = [0, 1, 2]"
  by (simp add: seeded_restaurants sample_restaurants_def)

lemma seeded_menu_item_references:
  "map (field_restaurant_id \<circ> doc_fields) (find_docs seeded_database ''menuitem'')
     = [Some (str_oid 0), Some (str_oid 0), Some (str_oid 1), Some (str_oid 2)]"
proof -
  define d1 where "d1 = snd (seed_restaurants [] empty_database)"
  have rs: "find_docs d1 ''restaurant'' = new_documents 0 (map RestaurantDoc sample_restaurants)"
    by (simp add: d1_def seed_restaurants_eq create_restaurants_appended
        find_docs_empty_database next_id_empty_database)
  have mi: "find_docs d1 ''menuitem'' = []"
    by (simp add: d1_def seed_restaurants_menuitem find_docs_empty_database)
  have "find_docs (snd (seed_menuitems [] d1)) ''menuitem''
      = new_documents (next_id d1) (map MenuItemDoc (sample_items 0 1 2))"
    by (simp add: seed_menuitems_eq create_menu_items_appended rs mi sample_restaurants_def)
  then have "map doc_fields (find_docs seeded_database ''menuitem'')
      = map MenuItemDoc (sample_items 0 1 2)"
    by (simp add: seeded_database_def d1_def map_doc_fields_new_documents)
  then have "map (field_restaurant_id \<circ> doc_fields) (find_docs seeded_database ''menuitem'')
      = map field_restaurant_id (map MenuItemDoc (sample_items 0 1 2))"
    by (simp only: map_map [symmetric])
  then show ?thesis by (simp add: sample_items_def)
qed

theorem seeded_menu_items_reference_restaurants_witness:
  "seed_data (Some empty_database) = (Inr \<lparr>restaurants = 3, menuitem = 4\<rparr>, Some seeded_database)
   \<and> find_docs seeded_database ''restaurant'' \<noteq> []
   \<and> map doc_id (find_docs seeded_database ''restaurant'') = [0, 1, 2]
   \<and> map (field_restaurant_id \<circ> doc_fields) (find_docs seeded_database ''menuitem'')
       = [Some (str_oid 0), Some (str_oid 0), Some (str_oid 1), Some (str_oid 2)]"
proof -
  from seeded_menu_items_reference_restaurants [OF seed_data_empty_database]
  have "find_docs seeded_database ''restaurant'' \<noteq> []" by (elim exE conjE) simp
  then show ?thesis
    by (simp only: seed_data_empty_database seeded_restaurant_ids seeded_menu_item_references
        simp_thms)
qed

section \<open>Listing a menu\<close>

lemma list_menu_Some:
  "list_menu (Some d) x
     = Inr (map stringify_id (filter (restaurant_id_filter x) (find_docs d ''menuitem'')))"
  by (simp add: list_menu_def get_documents_def split: sum.splits)

lemma find_docs_stray_menu_database:
  "find_docs stray_menu_database ''menuitem''
     = [\<lparr>doc_id = 7, doc_fields = MenuItemDoc stray_menu_item\<rparr>]"
  by (simp add: find_docs_def stray_menu_database_def)

text \<open>
  Claim C7, as it holds of the code. On an initialised store the handler returns, for every string
  \<open>x\<close>, exactly the documents of the menu-item collection whose \<^verbatim>\<open>restaurant_id\<close>
  is the string \<open>x\<close>, in storage order, their identifiers as strings; whether \<open>x\<close>
  parses as an identifier plays no part. The route answers with that list whenever
  the floats of the matching documents are finite, and the list is empty exactly
  when no stored document carries \<open>x\<close>.
\<close>

theorem list_menu_matches_stored_string:
  "list_menu (Some d) x
     = Inr (map stringify_id
              (filter (\<lambda>doc. field_restaurant_id (doc_fields doc) = Some x)
                 (find_docs d ''menuitem'')))
   \<and> (list_all (\<lambda>doc. model_json_compliant (doc_fields doc))
         (filter (\<lambda>doc. field_restaurant_id (doc_fields doc) = Some x)
            (find_docs d ''menuitem''))
        \<longrightarrow> get_menu (Some d) x = list_menu (Some d) x)
   \<and> (get_menu (Some d) x = Inr []
        \<longleftrightarrow> (\<forall>doc\<in>set (find_docs d ''menuitem'').
               field_restaurant_id (doc_fields doc) \<noteq> Some x))"
proof -
  let ?ms = "filter (\<lambda>doc. field_restaurant_id (doc_fields doc) = Some x)
               (find_docs d ''menuitem'')"
  have f: "restaurant_id_filter x = (\<lambda>doc. field_restaurant_id (doc_fields doc) = Some x)"
    by (simp add: fun_eq_iff restaurant_id_filter_def)
  have l: "list_menu (Some d) x = Inr (map stringify_id ?ms)"
    by (simp add: list_menu_Some f)
  have g: "get_menu (Some d) x = render_documents (map stringify_id ?ms)"
    by (simp add: get_menu_def l)
  have c: "list_all (\<lambda>doc. model_json_compliant (json_fields doc)) (map stringify_id ?ms)
      \<longleftrightarrow> list_all (\<lambda>doc. model_json_compliant (doc_fields doc)) ?ms"
    by (simp add: list_all_iff stringify_id_def)
  have e: "get_menu (Some d) x = Inr [] \<longleftrightarrow> ?ms = []"
    unfolding g render_documents_def c by auto
  have "?ms = [] \<longleftrightarrow> (\<forall>doc\<in>set (find_docs d ''menuitem'').
               field_restaurant_id (doc_fields doc) \<noteq> Some x)"
    by (simp add: filter_empty_conv)
  with e have e': "get_menu (Some d) x = Inr []
      \<longleftrightarrow> (\<forall>doc\<in>set (find_docs d ''menuitem'').
               field_restaurant_id (doc_fields doc) \<noteq> Some x)"
    by (rule trans)
  have r: "get_menu (Some d) x = list_menu (Some d) x"
    if "list_all (\<lambda>doc. model_json_compliant (doc_fields doc)) ?ms"
    using that c by (simp add: g l render_documents_def)
  from l r e' show ?thesis by blast
qed

theorem list_menu_matches_stored_string_witness:
  "find_docs stray_menu_database ''menuitem''
     = [\<lparr>doc_id = 7, doc_fields = MenuItemDoc stray_menu_item\<rparr>]
   \<and> field_restaurant_id (MenuItemDoc stray_menu_item) = Some ''abc''
   \<and> model_json_compliant (MenuItemDoc stray_menu_item)
   \<and> list_menu (Some stray_menu_database) ''abc''
       = Inr [\<lparr>json_id = str_oid 7, json_fields = MenuItemDoc stray_menu_item\<rparr>]
   \<and> get_menu (Some stray_menu_database) ''abc''
       = Inr [\<lparr>json_id = str_oid 7, json_fields = MenuItemDoc stray_menu_item\<rparr>]
   \<and> get_menu (Some stray_menu_database) ''abd'' = Inr []"
  using list_menu_matches_stored_string [of stray_menu_database "''abc''"]
    list_menu_matches_stored_string [of stray_menu_database "''abd''"]
  by (simp add: find_docs_stray_menu_database stray_menu_item_def stringify_id_def)

text \<open>
  The string \<^verbatim>\<open>abc\<close> is no identifier, and the listing for it is not empty on a
  store in which a menu item carries it.
\<close>

theorem unparsable_identifier_returns_item:
  "ObjectId ''abc'' = Inl InvalidId
   \<and> find_docs stray_menu_database ''menuitem''
       = [\<lparr>doc_id = 7, doc_fields = MenuItemDoc stray_menu_item\<rparr>]
   \<and> menuitem_restaurant_id stray_menu_item = ''abc''
   \<and> get_menu (Some stray_menu_database) ''abc''
       = Inr [\<lparr>json_id = str_oid 7, json_fields = MenuItemDoc stray_menu_item\<rparr>]
   \<and> get_menu (Some stray_menu_database) ''abc'' \<noteq> Inr []"
  by (simp add: ObjectId_def get_menu_def list_menu_Some find_docs_stray_menu_database
      restaurant_id_filter_def stray_menu_item_def stringify_id_def render_documents_def)

section \<open>Order creation\<close>

lemma validate_OrderItem_Inr:
  "validate_OrderItem b = Inr i \<Longrightarrow> 1 \<le> quantity i"
  by (auto simp: validate_OrderItem_def Let_def split: option.splits if_splits)

lemma validate_items_Inr:
  "validate_items bs = Inr is \<Longrightarrow> \<forall>i\<in>set is. 1 \<le> quantity i"
  by (induction bs arbitrary: "is")
    (auto split: sum.splits dest: validate_OrderItem_Inr)

lemma validate_CreateOrder_Inr:
  "validate_CreateOrder b = Inr p \<Longrightarrow> \<forall>i\<in>set (items p). 1 \<le> quantity i"
  by (auto simp: validate_CreateOrder_def split: option.splits sum.splits
      dest: validate_items_Inr)

lemma validate_CreateOrder_total:
  "validate_CreateOrder b = Inr p \<Longrightarrow> validate_CreateOrder (b\<lparr>body_total := t\<rparr>) = Inr p"
  by (auto simp: validate_CreateOrder_def split: option.splits sum.splits)

lemma json_loads_total:
  "json_loads b = Inr b \<Longrightarrow> json_loads (b\<lparr>body_total := t\<rparr>) = Inr (b\<lparr>body_total := t\<rparr>)"
  by (auto simp: json_loads_def split: if_splits)

lemma json_loads_cases:
  "json_loads b = Inr b \<or> json_loads b = Inl (HTTPException 400 ''There was an error parsing the body'')"
  by (simp add: json_loads_def)

lemma int_to_float_cases:
  "int_to_float n = Inl OverflowError \<or> (\<exists>q. int_to_float n = Inr (Fin q))"
  by (cases "fl (of_int n)") (simp_all add: int_to_float_def)

lemma pow2_63: "pow2 63 = 2 ^ 63"
  using pow2_nat [of 63] by simp

lemma int64_converts:
  assumes "1 \<le> n" and "n < 2 ^ 63"
  shows "\<exists>q. int_to_float n = Inr (Fin q)"
proof -
  have "(of_int n :: rat) < of_int (2 ^ 63)" using assms(2) by (simp only: of_int_less_iff)
  then have "(of_int n :: rat) < pow2 63" by (simp add: pow2_63)
  also have "pow2 63 \<le> pow2 1023" by simp
  also have "pow2 1023 \<le> float_max_bound" by (rule float_max_bound_ge)
  finally have "\<bar>of_int n :: rat\<bar> < float_max_bound" using assms(1) by simp
  then have "int_to_float n \<noteq> Inl OverflowError"
    by (simp add: int_to_float_overflow_iff)
  with int_to_float_cases [of n] show ?thesis by blast
qed

lemma products_int64:
  "\<forall>i\<in>set is. 1 \<le> quantity i \<and> quantity i < 2 ^ 63 \<Longrightarrow> \<exists>xs. products is = Inr xs"
proof (induction "is")
  case Nil
  then show ?case by simp
next
  case (Cons i "is")
  then obtain xs where xs: "products is = Inr xs" by auto
  from Cons.prems obtain q where "int_to_float (quantity i) = Inr (Fin q)"
    using int64_converts [of "quantity i"] by auto
  with xs show ?case by (simp add: float_mul_int_def)
qed

lemma products_list_all2:
  "products is = Inr xs
   \<Longrightarrow> list_all2 (\<lambda>i x. float_mul_int (price i) (quantity i) = Inr x) is xs"
  by (induction "is" arbitrary: xs) (auto split: sum.splits)

lemma find_docs_store_order:
  "find_docs (snd (store_document d ''order'' x)) ''order''
     = find_docs d ''order'' @ [\<lparr>doc_id = next_id d, doc_fields = x\<rparr>]"
  by (simp add: find_docs_store_document)

lemma create_order_Some:
  assumes "products (items p) = Inr xs"
    and "list_all (\<lambda>i. bson_int (quantity i)) (items p)"
  shows "create_order alg (Some d) p =
           (Inr \<lparr>response_order_id = str_oid (next_id d), response_status = ''pending'',
                 response_total = py_round (py_sum alg xs) 2\<rparr>,
            Some (snd (store_document d ''order''
                        (OrderDoc (new_order p (py_round (py_sum alg xs) 2))))))"
  using assms
  by (simp add: create_order_def Let_def create_document_Some new_order_def)

lemma create_order_Inr:
  assumes "create_order alg db p = (Inr r, db')"
  shows "\<exists>d xs. db = Some d \<and> products (items p) = Inr xs
           \<and> list_all (\<lambda>i. bson_int (quantity i)) (items p)"
proof (cases db)
  case None
  with assms show ?thesis by (simp add: create_order_def)
next
  case (Some d)
  show ?thesis
  proof (cases "products (items p)")
    case (Inl e)
    with assms Some show ?thesis by (simp add: create_order_def)
  next
    case (Inr xs)
    show ?thesis
    proof (cases "list_all (\<lambda>i. bson_int (quantity i)) (items p)")
      case True
      with Some Inr show ?thesis by simp
    next
      case False
      then have "\<not> bson_encodable (OrderDoc (new_order p t))" for t
        by (simp add: new_order_def)
      with assms Some Inr show ?thesis
        by (simp add: create_order_def Let_def create_document_overflow)
    qed
  qed
qed

lemma post_orders_valid:
  assumes "json_loads body = Inr body" and "validate_CreateOrder body = Inr p"
  shows "post_orders alg db body =
           (case create_order alg db p of
              (Inl e, db') \<Rightarrow> (Inl e, db')
            | (Inr r, db') \<Rightarrow> (render_order_response r, db'))"
  using assms by (simp add: post_orders_def)

lemma post_orders_Inr:
  assumes "post_orders alg db body = (Inr r, db')"
  shows "\<exists>p. json_loads body = Inr body \<and> validate_CreateOrder body = Inr p
           \<and> create_order alg db p = (Inr r, db') \<and> is_finite (response_total r)"
proof -
  from json_loads_cases [of body] assms have l: "json_loads body = Inr body"
    by (auto simp: post_orders_def)
  with assms obtain p where p: "validate_CreateOrder body = Inr p"
    by (cases "validate_CreateOrder body") (simp_all add: post_orders_def)
  from assms have "(case create_order alg db p of
              (Inl e, db') \<Rightarrow> (Inl e, db')
            | (Inr r, db') \<Rightarrow> (render_order_response r, db')) = (Inr r, db')"
    by (simp only: post_orders_valid [OF l p])
  then have "create_order alg db p = (Inr r, db') \<and> is_finite (response_total r)"
    by (auto simp: render_order_response_def split: prod.splits sum.splits if_splits)
  with l p show ?thesis by blast
qed

lemma small_literal_loads: "\<bar>q\<bar> < 10 \<Longrightarrow> int_literal_loads q"
  by (simp add: int_literal_loads_def decimal_digits_small int_max_str_digits_def)

lemma one_item_order_loads:
  "int_literal_loads q \<Longrightarrow> json_loads (one_item_order q p) = Inr (one_item_order q p)"
  by (simp add: json_loads_def one_item_order_def item_loads_def)

lemma one_item_order_valid:
  "1 \<le> q \<Longrightarrow> validate_CreateOrder (one_item_order q p) = Inr (one_item_payload q p)"
  by (simp add: validate_CreateOrder_def one_item_order_def validate_OrderItem_def
      one_item_payload_def)

lemma empty_items_order_loads: "json_loads empty_items_order = Inr empty_items_order"
  by (simp add: json_loads_def empty_items_order_def)

lemma empty_items_order_valid: "validate_CreateOrder empty_items_order = Inr empty_items_payload"
  by (simp add: validate_CreateOrder_def empty_items_order_def empty_items_payload_def)

lemma store_order_empty_database:
  "snd (store_document empty_database ''order'' x)
     = \<lparr>collections = [(''order'', [\<lparr>doc_id = 0, doc_fields = x\<rparr>])], next_id = 1\<rparr>"
  by (simp add: store_document_def empty_database_def find_docs_def Let_def)

lemma int_to_float_1: "int_to_float 1 = Inr (Fin 1)"
  by code_simp

lemma int_to_float_2: "int_to_float 2 = Inr (Fin 2)"
  by code_simp

lemma fl_minus_5: "fl (- 5) = Fin (- 5)"
  by code_simp

lemma py_round_minus_5: "py_round (Fin (- 5)) 2 = Fin (- 5)"
  by code_simp

lemma example_products:
  "products (items example_payload)
     = Inr [Fin (8438619801785467 / 281474976710656), Fin (25 / 2)]"
  by code_simp

lemma example_total_left:
  "py_round (py_sum LeftToRight [Fin (8438619801785467 / 281474976710656), Fin (25 / 2)]) 2
     = float_literal (4248 / 100)"
  by code_simp

lemma example_total_neumaier:
  "py_round (py_sum Neumaier [Fin (8438619801785467 / 281474976710656), Fin (25 / 2)]) 2
     = float_literal (4248 / 100)"
  by code_simp

lemma example_total:
  "py_round (py_sum alg [Fin (8438619801785467 / 281474976710656), Fin (25 / 2)]) 2
     = float_literal (4248 / 100)"
  by (cases alg) (simp_all only: example_total_left example_total_neumaier)

lemma example_total_value:
  "float_literal (4248 / 100) = Fin (5978528505334333 / 140737488355328)"
  by code_simp

lemma round_half_even_zero: "round_half_even 0 = 0"
  using round_half_even_of_int [of 0] by simp

lemma fl_zero: "fl 0 = Fin 0"
  by (simp add: fl_def)

lemma py_round_zero: "py_round (Fin 0) n = Fin 0"
  by (simp add: round_half_even_zero fl_zero)

lemma py_sum_single: "py_sum alg [x] = fadd (Fin 0) x"
  by (cases alg) simp_all

lemma is_finite_float_4248: "is_finite (float_literal (4248 / 100))"
  unfolding example_total_value by simp

lemma is_finite_float_4248_reduced: "is_finite (float_literal (1062 / 25))"
  using is_finite_float_4248 by simp

lemma example_encodable: "list_all (\<lambda>i. bson_int (quantity i)) (items example_payload)"
  by (simp add: example_payload_def bson_int_def)

lemma post_orders_example:
  "post_orders alg (Some d) example_order =
     (Inr \<lparr>response_order_id = str_oid (next_id d), response_status = ''pending'',
           response_total = float_literal (4248 / 100)\<rparr>,
      Some (snd (store_document d ''order''
                  (OrderDoc (new_order example_payload (float_literal (4248 / 100)))))))"
  by (simp add: post_orders_valid [OF example_order_loads example_order_valid]
      create_order_Some [OF example_products example_encodable] example_total
      render_order_response_def is_finite_float_4248_reduced)

text \<open>
  Claim C1. Whenever the handler returns, the order it stored, last in the order
  collection, and the response carry the same total: the prices times the
  quantities, summed and rounded to two decimals in float arithmetic; the status is
  \<^verbatim>\<open>pending\<close>. Whenever the route answers with a success, the body validated, the
  handler returned that response, and a total sent along in the body changes
  neither the response nor the store. The order of 14.99 twice and 12.50 once gets
  the total 42.48 and the status \<^verbatim>\<open>pending\<close> on every initialised store, whichever
  summation the interpreter runs.
\<close>

theorem order_total_computed_server_side:
  "(create_order alg db p = (Inr r, db') \<longrightarrow>
      (\<exists>d xs. db = Some d
         \<and> list_all2 (\<lambda>i x. float_mul_int (price i) (quantity i) = Inr x) (items p) xs
         \<and> r = \<lparr>response_order_id = str_oid (next_id d), response_status = ''pending'',
                 response_total = py_round (py_sum alg xs) 2\<rparr>
         \<and> db' = Some (snd (store_document d ''order''
                              (OrderDoc (new_order p (py_round (py_sum alg xs) 2)))))
         \<and> find_docs (snd (store_document d ''order''
                              (OrderDoc (new_order p (py_round (py_sum alg xs) 2))))) ''order''
             = find_docs d ''order'' @
                 [\<lparr>doc_id = next_id d,
                   doc_fields = OrderDoc (new_order p (py_round (py_sum alg xs) 2))\<rparr>]
         \<and> order_total (new_order p (py_round (py_sum alg xs) 2)) = py_round (py_sum alg xs) 2
         \<and> order_status (new_order p (py_round (py_sum alg xs) 2)) = ''pending''))
   \<and> (post_orders alg db body = (Inr r, db') \<longrightarrow>
        (\<exists>p'. validate_CreateOrder body = Inr p' \<and> create_order alg db p' = (Inr r, db')
           \<and> (\<forall>t. post_orders alg db (body\<lparr>body_total := t\<rparr>) = (Inr r, db'))))
   \<and> post_orders alg (Some d0) example_order =
        (Inr \<lparr>response_order_id = str_oid (next_id d0), response_status = ''pending'',
              response_total = float_literal (4248 / 100)\<rparr>,
         Some (snd (store_document d0 ''order''
                     (OrderDoc (new_order example_payload (float_literal (4248 / 100)))))))"
proof (intro conjI impI)
  assume h: "create_order alg db p = (Inr r, db')"
  then obtain d xs where d: "db = Some d" and xs: "products (items p) = Inr xs"
    and enc: "list_all (\<lambda>i. bson_int (quantity i)) (items p)"
    using create_order_Inr by blast
  from h have "r = \<lparr>response_order_id = str_oid (next_id d), response_status = ''pending'',
                 response_total = py_round (py_sum alg xs) 2\<rparr>
      \<and> db' = Some (snd (store_document d ''order''
                              (OrderDoc (new_order p (py_round (py_sum alg xs) 2)))))"
    unfolding d create_order_Some [OF xs enc] by simp
  with d products_list_all2 [OF xs]
  show "\<exists>d xs. db = Some d
         \<and> list_all2 (\<lambda>i x. float_mul_int (price i) (quantity i) = Inr x) (items p) xs
         \<and> r = \<lparr>response_order_id = str_oid (next_id d), response_status = ''pending'',
                 response_total = py_round (py_sum alg xs) 2\<rparr>
         \<and> db' = Some (snd (store_document d ''order''
                              (OrderDoc (new_order p (py_round (py_sum alg xs) 2)))))
         \<and> find_docs (snd (store_document d ''order''
                              (OrderDoc (new_order p (py_round (py_sum alg xs) 2))))) ''order''
             = find_docs d ''order'' @
                 [\<lparr>doc_id = next_id d,
                   doc_fields = OrderDoc (new_order p (py_round (py_sum alg xs) 2))\<rparr>]
         \<and> order_total (new_order p (py_round (py_sum alg xs) 2)) = py_round (py_sum alg xs) 2
         \<and> order_status (new_order p (py_round (py_sum alg xs) 2)) = ''pending''"
    by (intro exI [of _ d] exI [of _ xs]) (simp add: find_docs_store_order new_order_def)
next
  assume h: "post_orders alg db body = (Inr r, db')"
  then obtain p' where l: "json_loads body = Inr body"
    and v: "validate_CreateOrder body = Inr p'"
    and c: "create_order alg db p' = (Inr r, db')" and f: "is_finite (response_total r)"
    using post_orders_Inr by blast
  have "post_orders alg db (body\<lparr>body_total := t\<rparr>) = (Inr r, db')" for t
    by (simp add: post_orders_valid [OF json_loads_total [OF l] validate_CreateOrder_total [OF v]]
        c render_order_response_def f)
  with v c
  show "\<exists>p'. validate_CreateOrder body = Inr p' \<and> create_order alg db p' = (Inr r, db')
           \<and> (\<forall>t. post_orders alg db (body\<lparr>body_total := t\<rparr>) = (Inr r, db'))"
    by blast
next
  show "post_orders alg (Some d0) example_order =
        (Inr \<lparr>response_order_id = str_oid (next_id d0), response_status = ''pending'',
              response_total = float_literal (4248 / 100)\<rparr>,
         Some (snd (store_document d0 ''order''
                     (OrderDoc (new_order example_payload (float_literal (4248 / 100)))))))"
    by (rule post_orders_example)
qed

lemma create_order_example:
  "create_order alg (Some d) example_payload =
     (Inr \<lparr>response_order_id = str_oid (next_id d), response_status = ''pending'',
           response_total = float_literal (4248 / 100)\<rparr>,
      Some (snd (store_document d ''order''
                  (OrderDoc (new_order example_payload (float_literal (4248 / 100)))))))"
  by (simp add: create_order_Some [OF example_products example_encodable] example_total)

theorem order_total_computed_server_side_witness:
  "create_order Neumaier (Some empty_database) example_payload =
     (Inr \<lparr>response_order_id = str_oid 0, response_status = ''pending'',
           response_total = float_literal (4248 / 100)\<rparr>,
      Some \<lparr>collections =
              [(''order'',
                [\<lparr>doc_id = 0,
                  doc_fields = OrderDoc (new_order example_payload (float_literal (4248 / 100)))\<rparr>])],
            next_id = 1\<rparr>)
   \<and> post_orders Neumaier (Some empty_database) example_order =
     (Inr \<lparr>response_order_id = str_oid 0, response_status = ''pending'',
           response_total = float_literal (4248 / 100)\<rparr>,
      Some \<lparr>collections =
              [(''order'',
                [\<lparr>doc_id = 0,
                  doc_fields = OrderDoc (new_order example_payload (float_literal (4248 / 100)))\<rparr>])],
            next_id = 1\<rparr>)
   \<and> post_orders Neumaier (Some empty_database) (example_order\<lparr>body_total := Some (Fin 1)\<rparr>) =
     (Inr \<lparr>response_order_id = str_oid 0, response_status = ''pending'',
           response_total = float_literal (4248 / 100)\<rparr>,
      Some \<lparr>collections =
              [(''order'',
                [\<lparr>doc_id = 0,
                  doc_fields = OrderDoc (new_order example_payload (float_literal (4248 / 100)))\<rparr>])],
            next_id = 1\<rparr>)
   \<and> float_literal (4248 / 100) = Fin (5978528505334333 / 140737488355328)"
proof -
  let ?r = "\<lparr>response_order_id = str_oid 0, response_status = ''pending'',
           response_total = float_literal (4248 / 100)\<rparr>"
  let ?db = "Some \<lparr>collections =
              [(''order'',
                [\<lparr>doc_id = 0,
                  doc_fields = OrderDoc (new_order example_payload (float_literal (4248 / 100)))\<rparr>])],
            next_id = 1\<rparr>"
  have c: "create_order Neumaier (Some empty_database) example_payload = (Inr ?r, ?db)"
    by (simp add: create_order_example store_order_empty_database next_id_empty_database)
  have p: "post_orders Neumaier (Some empty_database) example_order = (Inr ?r, ?db)"
    by (simp add: post_orders_example store_order_empty_database next_id_empty_database)
  from order_total_computed_server_side
    [of Neumaier "Some empty_database" example_payload ?r ?db example_order] p
  have "post_orders Neumaier (Some empty_database) (example_order\<lparr>body_total := Some (Fin 1)\<rparr>)
      = (Inr ?r, ?db)"
    by blast
  with c p show ?thesis by (simp only: example_total_value simp_thms)
qed

text \<open>
  Claim C2, as it holds of the code. A body whose four strings are present and whose item list
  is empty is accepted on an initialised store: an Order with no items, the total
  0.0 and the status \<^verbatim>\<open>pending\<close> is stored, last in the order collection, and
  returned. A body with no \<^verbatim>\<open>items\<close> key is answered with an error, and the store
  is as it was.
\<close>

theorem empty_item_list_accepted:
  "(body_restaurant_id body = Some rid \<and> body_customer_name body = Some cn
    \<and> body_address body = Some a \<and> body_phone body = Some ph \<and> body_items body = Some []
    \<longrightarrow> post_orders alg (Some d) body =
          (Inr \<lparr>response_order_id = str_oid (next_id d), response_status = ''pending'',
                response_total = Fin 0\<rparr>,
           Some (snd (store_document d ''order''
                       (OrderDoc \<lparr>order_restaurant_id = rid, order_customer_name = cn,
                                  order_address = a, order_phone = ph, order_items = [],
                                  order_total = Fin 0, order_status = ''pending''\<rparr>))))
        \<and> find_docs (snd (store_document d ''order''
                       (OrderDoc \<lparr>order_restaurant_id = rid, order_customer_name = cn,
                                  order_address = a, order_phone = ph, order_items = [],
                                  order_total = Fin 0, order_status = ''pending''\<rparr>))) ''order''
            = find_docs d ''order'' @
                [\<lparr>doc_id = next_id d,
                  doc_fields = OrderDoc \<lparr>order_restaurant_id = rid, order_customer_name = cn,
                                  order_address = a, order_phone = ph, order_items = [],
                                  order_total = Fin 0, order_status = ''pending''\<rparr>\<rparr>])
   \<and> (body_items body' = None \<longrightarrow> (\<exists>e. post_orders alg db body' = (Inl e, db)))"
proof -
  let ?p = "\<lparr>restaurant_id = rid, customer_name = cn, address = a, phone = ph, items = []\<rparr>"
  let ?ord = "\<lparr>order_restaurant_id = rid, order_customer_name = cn,
                order_address = a, order_phone = ph, order_items = [],
                order_total = Fin 0, order_status = ''pending''\<rparr>"
  have c: "create_order alg (Some d) ?p =
      (Inr \<lparr>response_order_id = str_oid (next_id d), response_status = ''pending'',
            response_total = Fin 0\<rparr>,
       Some (snd (store_document d ''order'' (OrderDoc ?ord))))"
    using create_order_Some [of ?p "[]" alg d]
    by (simp add: round_half_even_zero fl_zero new_order_def)
  have accepted: "post_orders alg (Some d) body =
          (Inr \<lparr>response_order_id = str_oid (next_id d), response_status = ''pending'',
                response_total = Fin 0\<rparr>,
           Some (snd (store_document d ''order'' (OrderDoc ?ord))))"
    if h: "body_restaurant_id body = Some rid \<and> body_customer_name body = Some cn
      \<and> body_address body = Some a \<and> body_phone body = Some ph \<and> body_items body = Some []"
  proof -
    from h have l: "json_loads body = Inr body" by (simp add: json_loads_def)
    from h have v: "validate_CreateOrder body = Inr ?p" by (simp add: validate_CreateOrder_def)
    show ?thesis
      by (simp add: post_orders_valid [OF l v] c render_order_response_def)
  qed
  have stored: "find_docs (snd (store_document d ''order'' (OrderDoc ?ord))) ''order''
            = find_docs d ''order'' @ [\<lparr>doc_id = next_id d, doc_fields = OrderDoc ?ord\<rparr>]"
    by (rule find_docs_store_order)
  have rejected: "\<exists>e. post_orders alg db body' = (Inl e, db)" if h: "body_items body' = None"
  proof -
    from h have "\<exists>es. validate_CreateOrder body' = Inl es"
      by (simp add: validate_CreateOrder_def split: option.splits)
    then show ?thesis
      by (auto simp: post_orders_def split: sum.splits dest!: json_loads_Inr)
  qed
  from accepted stored rejected show ?thesis by blast
qed

theorem empty_item_list_accepted_witness:
  "body_items empty_items_order = Some []
   \<and> post_orders Neumaier (Some empty_database) empty_items_order =
       (Inr \<lparr>response_order_id = str_oid 0, response_status = ''pending'',
             response_total = Fin 0\<rparr>,
        Some \<lparr>collections =
                [(''order'',
                  [\<lparr>doc_id = 0,
                    doc_fields = OrderDoc \<lparr>order_restaurant_id = ''r1'',
                      order_customer_name = ''Ada'', order_address = ''1 Main Street'',
                      order_phone = ''555-0100'', order_items = [], order_total = Fin 0,
                      order_status = ''pending''\<rparr>\<rparr>])],
              next_id = 1\<rparr>)
   \<and> body_items (empty_items_order\<lparr>body_items := None\<rparr>) = None
   \<and> fst (post_orders Neumaier (Some empty_database) (empty_items_order\<lparr>body_items := None\<rparr>))
       = Inl RequestValidationError
   \<and> snd (post_orders Neumaier (Some empty_database) (empty_items_order\<lparr>body_items := None\<rparr>))
       = Some empty_database"
  using empty_item_list_accepted
    [of empty_items_order "''r1''" "''Ada''" "''1 Main Street''" "''555-0100''"
        Neumaier empty_database "empty_items_order\<lparr>body_items := None\<rparr>" "Some empty_database"]
  by (auto simp: empty_items_order_def store_order_empty_database next_id_empty_database
      post_orders_def json_loads_def validate_CreateOrder_def CreateOrder_errors_def
      request_validation_response_def body_json_compliant_def)

text \<open>The order with an empty item list is stored on the empty database.\<close>

theorem empty_item_list_persisted:
  "body_items empty_items_order = Some []
   \<and> post_orders LeftToRight (Some empty_database) empty_items_order =
       (Inr \<lparr>response_order_id = str_oid 0, response_status = ''pending'',
             response_total = Fin 0\<rparr>,
        Some \<lparr>collections =
                [(''order'',
                  [\<lparr>doc_id = 0, doc_fields = OrderDoc (new_order empty_items_payload (Fin 0))\<rparr>])],
              next_id = 1\<rparr>)
   \<and> order_items (new_order empty_items_payload (Fin 0)) = []"
proof -
  have e: "items empty_items_payload = []" by (simp add: empty_items_payload_def)
  have "create_order LeftToRight (Some empty_database) empty_items_payload =
      (Inr \<lparr>response_order_id = str_oid 0, response_status = ''pending'',
            response_total = Fin 0\<rparr>,
       Some \<lparr>collections =
                [(''order'',
                  [\<lparr>doc_id = 0, doc_fields = OrderDoc (new_order empty_items_payload (Fin 0))\<rparr>])],
              next_id = 1\<rparr>)"
    using create_order_Some [of empty_items_payload "[]" LeftToRight empty_database]
    by (simp add: e round_half_even_zero fl_zero store_order_empty_database
        next_id_empty_database)
  then have "post_orders LeftToRight (Some empty_database) empty_items_order =
       (Inr \<lparr>response_order_id = str_oid 0, response_status = ''pending'',
             response_total = Fin 0\<rparr>,
        Some \<lparr>collections =
                [(''order'',
                  [\<lparr>doc_id = 0, doc_fields = OrderDoc (new_order empty_items_payload (Fin 0))\<rparr>])],
              next_id = 1\<rparr>)"
    by (simp add: post_orders_valid [OF empty_items_order_loads empty_items_order_valid]
        render_order_response_def)
  moreover have "body_items empty_items_order = Some []"
    by (simp add: empty_items_order_def)
  moreover have "order_items (new_order empty_items_payload (Fin 0)) = []"
    by (simp add: new_order_def e)
  ultimately show ?thesis by (intro conjI)
qed

lemma decimal_digits_le:
  "\<bar>n\<bar> < 10 ^ k \<Longrightarrow> 0 < k \<Longrightarrow> decimal_digits n \<le> k"
proof (induction k arbitrary: n)
  case 0
  then show ?case by simp
next
  case (Suc k)
  show ?case
  proof (cases "\<bar>n\<bar> < 10")
    case True
    then show ?thesis by (simp add: decimal_digits_small)
  next
    case False
    then have d: "decimal_digits n = Suc (decimal_digits (\<bar>n\<bar> div 10))"
      by (subst decimal_digits.simps) simp
    from False Suc.prems have k: "0 < k" by (cases k) auto
    from Suc.prems have "\<bar>n\<bar> div 10 < 10 ^ k" by simp
    moreover have "0 \<le> \<bar>n\<bar> div 10" by simp
    ultimately have "\<bar>\<bar>n\<bar> div 10\<bar> < 10 ^ k" by linarith
    from Suc.IH [OF this k] d show ?thesis by simp
  qed
qed

lemma huge_quantity_pos: "1 \<le> huge_quantity"
  unfolding huge_quantity_def by (rule one_le_power) simp

lemma huge_quantity_loads: "int_literal_loads huge_quantity"
proof -
  have "(2::int) ^ 1024 < 10 ^ 1024" by (rule power_strict_mono) simp_all
  moreover have "(0::int) \<le> 2 ^ 1024" by (rule zero_le_power) simp
  ultimately have "\<bar>huge_quantity\<bar> < 10 ^ 1024"
    unfolding huge_quantity_def by linarith
  then have "decimal_digits huge_quantity \<le> 1024" by (rule decimal_digits_le) simp
  then show ?thesis by (simp add: int_literal_loads_def int_max_str_digits_def)
qed

lemma pow2_1024: "pow2 1024 = 2 ^ 1024"
  using pow2_nat [of 1024] by simp

lemma huge_quantity_overflow: "int_to_float huge_quantity = Inl OverflowError"
proof -
  have "(of_int huge_quantity :: rat) = pow2 1024"
    unfolding huge_quantity_def pow2_1024 by (simp only: of_int_power of_int_numeral)
  then have "float_max_bound \<le> \<bar>of_int huge_quantity :: rat\<bar>"
    using float_max_bound_lt pow2_pos [of 1024] by linarith
  then show ?thesis by (simp only: int_to_float_overflow_iff)
qed

lemma fadd_zero_minus_5: "fadd (Fin 0) (Fin (- 5)) = Fin (- 5)"
  by (simp add: fl_minus_5)

lemma fmul_minus_5_1: "fmul (Fin (- 5)) (Fin 1) = Fin (- 5)"
  by (simp add: fl_minus_5)

lemma negative_price_products:
  "products (items (one_item_payload 1 (Fin (- 5)))) = Inr [Fin (- 5)]"
  by (simp add: one_item_payload_def float_mul_int_def int_to_float_1 fmul_minus_5_1
      del: fmul.simps)

lemma negative_price_total: "py_round (py_sum alg [Fin (- 5)]) 2 = Fin (- 5)"
  by (simp only: py_sum_single fadd_zero_minus_5 py_round_minus_5)

lemma one_item_encodable:
  "1 \<le> q \<Longrightarrow> q < 2 ^ 63 \<Longrightarrow> list_all (\<lambda>i. bson_int (quantity i)) (items (one_item_payload q p))"
  by (simp add: one_item_payload_def bson_int_def)

text \<open>
  Claim C3. The order of one item at the price -5.0, on any initialised store: the
  body validates, the handler stores the order with the total -5.0 and the route
  answers with a success.
\<close>

theorem negative_price_order_persisted:
  "validate_CreateOrder (one_item_order 1 (Fin (- 5))) = Inr (one_item_payload 1 (Fin (- 5)))
   \<and> post_orders alg (Some d) (one_item_order 1 (Fin (- 5))) =
       (Inr \<lparr>response_order_id = str_oid (next_id d), response_status = ''pending'',
             response_total = Fin (- 5)\<rparr>,
        Some (snd (store_document d ''order''
                    (OrderDoc (new_order (one_item_payload 1 (Fin (- 5))) (Fin (- 5)))))))
   \<and> find_docs (snd (store_document d ''order''
                    (OrderDoc (new_order (one_item_payload 1 (Fin (- 5))) (Fin (- 5)))))) ''order''
       = find_docs d ''order'' @
           [\<lparr>doc_id = next_id d,
             doc_fields = OrderDoc (new_order (one_item_payload 1 (Fin (- 5))) (Fin (- 5)))\<rparr>]"
proof -
  have l: "json_loads (one_item_order 1 (Fin (- 5))) = Inr (one_item_order 1 (Fin (- 5)))"
    by (rule one_item_order_loads) (simp add: small_literal_loads)
  have v: "validate_CreateOrder (one_item_order 1 (Fin (- 5))) = Inr (one_item_payload 1 (Fin (- 5)))"
    by (rule one_item_order_valid) simp
  have e: "list_all (\<lambda>i. bson_int (quantity i)) (items (one_item_payload 1 (Fin (- 5))))"
    by (rule one_item_encodable) simp_all
  have "post_orders alg (Some d) (one_item_order 1 (Fin (- 5))) =
       (Inr \<lparr>response_order_id = str_oid (next_id d), response_status = ''pending'',
             response_total = Fin (- 5)\<rparr>,
        Some (snd (store_document d ''order''
                    (OrderDoc (new_order (one_item_payload 1 (Fin (- 5))) (Fin (- 5)))))))"
    by (simp add: post_orders_valid [OF l v] create_order_Some [OF negative_price_products e]
        negative_price_total render_order_response_def)
  with v show ?thesis by (simp only: find_docs_store_order simp_thms)
qed

theorem negative_price_order_persisted_witness:
  "post_orders LeftToRight (Some empty_database) (one_item_order 1 (Fin (- 5))) =
       (Inr \<lparr>response_order_id = str_oid 0, response_status = ''pending'',
             response_total = Fin (- 5)\<rparr>,
        Some \<lparr>collections =
                [(''order'',
                  [\<lparr>doc_id = 0,
                    doc_fields = OrderDoc (new_order (one_item_payload 1 (Fin (- 5))) (Fin (- 5)))\<rparr>])],
              next_id = 1\<rparr>)
   \<and> order_total (new_order (one_item_payload 1 (Fin (- 5))) (Fin (- 5))) = Fin (- 5)
   \<and> map price (order_items (new_order (one_item_payload 1 (Fin (- 5))) (Fin (- 5)))) = [Fin (- 5)]"
proof -
  from negative_price_order_persisted [of LeftToRight empty_database]
  have "post_orders LeftToRight (Some empty_database) (one_item_order 1 (Fin (- 5))) =
       (Inr \<lparr>response_order_id = str_oid 0, response_status = ''pending'',
             response_total = Fin (- 5)\<rparr>,
        Some \<lparr>collections =
                [(''order'',
                  [\<lparr>doc_id = 0,
                    doc_fields = OrderDoc (new_order (one_item_payload 1 (Fin (- 5))) (Fin (- 5)))\<rparr>])],
              next_id = 1\<rparr>)"
    by (simp only: store_order_empty_database next_id_empty_database)
  moreover have "order_total (new_order (one_item_payload 1 (Fin (- 5))) (Fin (- 5))) = Fin (- 5)"
    by (simp add: new_order_def)
  moreover have
    "map price (order_items (new_order (one_item_payload 1 (Fin (- 5))) (Fin (- 5)))) = [Fin (- 5)]"
    by (simp add: new_order_def one_item_payload_def)
  ultimately show ?thesis by (intro conjI)
qed

text \<open>
  Claim C9, as it holds of the code. On an initialised store, whatever it holds, a body that
  validates and whose quantities fit the 64-bit integers of the store is stored as
  an Order, last in the order collection, with the restaurant identifier and the
  items as sent; the route answers with the success response when the rounded total
  is a finite number, and with a 500 otherwise.
\<close>

theorem valid_order_persisted_without_lookup:
  assumes "json_loads body = Inr body" and "validate_CreateOrder body = Inr p"
    and "\<forall>i\<in>set (items p). quantity i < 2 ^ 63"
  shows "\<exists>xs. products (items p) = Inr xs
           \<and> post_orders alg (Some d) body =
               (if is_finite (py_round (py_sum alg xs) 2)
                then Inr \<lparr>response_order_id = str_oid (next_id d), response_status = ''pending'',
                          response_total = py_round (py_sum alg xs) 2\<rparr>
                else Inl ValueError,
                Some (snd (store_document d ''order''
                            (OrderDoc (new_order p (py_round (py_sum alg xs) 2))))))
           \<and> find_docs (snd (store_document d ''order''
                            (OrderDoc (new_order p (py_round (py_sum alg xs) 2))))) ''order''
               = find_docs d ''order'' @
                   [\<lparr>doc_id = next_id d,
                     doc_fields = OrderDoc (new_order p (py_round (py_sum alg xs) 2))\<rparr>]
           \<and> order_restaurant_id (new_order p (py_round (py_sum alg xs) 2)) = restaurant_id p
           \<and> order_items (new_order p (py_round (py_sum alg xs) 2)) = items p"
proof -
  have q: "\<forall>i\<in>set (items p). 1 \<le> quantity i \<and> quantity i < 2 ^ 63"
    using validate_CreateOrder_Inr [OF assms(2)] assms(3) by blast
  then obtain xs where xs: "products (items p) = Inr xs"
    using products_int64 by blast
  from q have e: "list_all (\<lambda>i. bson_int (quantity i)) (items p)"
    by (auto simp: list_all_iff bson_int_def)
  have "post_orders alg (Some d) body =
               (if is_finite (py_round (py_sum alg xs) 2)
                then Inr \<lparr>response_order_id = str_oid (next_id d), response_status = ''pending'',
                          response_total = py_round (py_sum alg xs) 2\<rparr>
                else Inl ValueError,
                Some (snd (store_document d ''order''
                            (OrderDoc (new_order p (py_round (py_sum alg xs) 2))))))"
    by (simp add: post_orders_valid [OF assms(1,2)] create_order_Some [OF xs e]
        render_order_response_def del: py_round.simps)
  with xs show ?thesis
    by (intro exI [of _ xs]) (simp add: find_docs_store_order new_order_def del: py_round.simps)
qed

theorem valid_order_persisted_without_lookup_witness:
  "json_loads example_order = Inr example_order
   \<and> validate_CreateOrder example_order = Inr example_payload
   \<and> list_all (\<lambda>i. quantity i < 2 ^ 63) (items example_payload)
   \<and> find_docs empty_database ''restaurant'' = []
   \<and> find_docs empty_database ''menuitem'' = []
   \<and> post_orders LeftToRight (Some empty_database) example_order =
       (Inr \<lparr>response_order_id = str_oid 0, response_status = ''pending'',
             response_total = float_literal (4248 / 100)\<rparr>,
        Some \<lparr>collections =
                [(''order'',
                  [\<lparr>doc_id = 0,
                    doc_fields = OrderDoc (new_order example_payload (float_literal (4248 / 100)))\<rparr>])],
              next_id = 1\<rparr>)"
proof -
  have b: "list_all (\<lambda>i. quantity i < 2 ^ 63) (items example_payload)"
    by (simp add: example_payload_def)
  then have "\<forall>i\<in>set (items example_payload). quantity i < 2 ^ 63"
    by (simp only: list_all_iff)
  from valid_order_persisted_without_lookup
    [OF example_order_loads example_order_valid this, of LeftToRight empty_database]
  have "post_orders LeftToRight (Some empty_database) example_order =
       (Inr \<lparr>response_order_id = str_oid 0, response_status = ''pending'',
             response_total = float_literal (4248 / 100)\<rparr>,
        Some \<lparr>collections =
                [(''order'',
                  [\<lparr>doc_id = 0,
                    doc_fields = OrderDoc (new_order example_payload (float_literal (4248 / 100)))\<rparr>])],
              next_id = 1\<rparr>)"
    by (simp only: post_orders_example store_order_empty_database next_id_empty_database)
  with b show ?thesis
    by (simp only: example_order_loads example_order_valid find_docs_empty_database simp_thms)
qed

text \<open>
  Two bodies that validate: with the quantity \<open>2\<^sup>1\<^sup>0\<^sup>2\<^sup>4\<close> the product raises
  \<^verbatim>\<open>OverflowError\<close> and nothing is stored; with the price NaN the order is stored
  and the response cannot be rendered.
\<close>

theorem valid_order_not_persisted_or_not_answered:
  "json_loads (one_item_order huge_quantity (Fin 1)) = Inr (one_item_order huge_quantity (Fin 1))
   \<and> validate_CreateOrder (one_item_order huge_quantity (Fin 1))
       = Inr (one_item_payload huge_quantity (Fin 1))
   \<and> post_orders LeftToRight (Some empty_database) (one_item_order huge_quantity (Fin 1))
       = (Inl OverflowError, Some empty_database)
   \<and> json_loads (one_item_order 1 NaN) = Inr (one_item_order 1 NaN)
   \<and> validate_CreateOrder (one_item_order 1 NaN) = Inr (one_item_payload 1 NaN)
   \<and> post_orders LeftToRight (Some empty_database) (one_item_order 1 NaN)
       = (Inl ValueError,
          Some \<lparr>collections =
                  [(''order'',
                    [\<lparr>doc_id = 0, doc_fields = OrderDoc (new_order (one_item_payload 1 NaN) NaN)\<rparr>])],
                next_id = 1\<rparr>)
   \<and> status_code OverflowError = 500 \<and> status_code ValueError = 500"
proof -
  have l1: "json_loads (one_item_order huge_quantity (Fin 1))
      = Inr (one_item_order huge_quantity (Fin 1))"
    by (rule one_item_order_loads) (rule huge_quantity_loads)
  have v1: "validate_CreateOrder (one_item_order huge_quantity (Fin 1))
      = Inr (one_item_payload huge_quantity (Fin 1))"
    by (rule one_item_order_valid) (rule huge_quantity_pos)
  have "products (items (one_item_payload huge_quantity (Fin 1))) = Inl OverflowError"
    by (simp add: one_item_payload_def float_mul_int_def huge_quantity_overflow)
  then have "create_order LeftToRight (Some empty_database) (one_item_payload huge_quantity (Fin 1))
      = (Inl OverflowError, Some empty_database)"
    by (simp add: create_order_def)
  then have p1: "post_orders LeftToRight (Some empty_database) (one_item_order huge_quantity (Fin 1))
      = (Inl OverflowError, Some empty_database)"
    by (simp add: post_orders_valid [OF l1 v1])
  have l2: "json_loads (one_item_order 1 NaN) = Inr (one_item_order 1 NaN)"
    by (rule one_item_order_loads) (simp add: small_literal_loads)
  have v2: "validate_CreateOrder (one_item_order 1 NaN) = Inr (one_item_payload 1 NaN)"
    by (rule one_item_order_valid) simp
  have x2: "products (items (one_item_payload 1 NaN)) = Inr [NaN]"
    by (simp add: one_item_payload_def float_mul_int_def int_to_float_1)
  have e2: "list_all (\<lambda>i. bson_int (quantity i)) (items (one_item_payload 1 NaN))"
    by (rule one_item_encodable) simp_all
  have t2: "py_round (py_sum LeftToRight [NaN]) 2 = NaN" by simp
  have p2: "post_orders LeftToRight (Some empty_database) (one_item_order 1 NaN)
       = (Inl ValueError,
          Some \<lparr>collections =
                  [(''order'',
                    [\<lparr>doc_id = 0, doc_fields = OrderDoc (new_order (one_item_payload 1 NaN) NaN)\<rparr>])],
                next_id = 1\<rparr>)"
    by (simp add: post_orders_valid [OF l2 v2] create_order_Some [OF x2 e2] t2
        render_order_response_def store_order_empty_database next_id_empty_database
        del: py_sum.simps py_round.simps)
  from l1 v1 p1 l2 v2 p2 show ?thesis by simp
qed

end
